theory Spec2Isabelle
  imports Complex_Main "HOL-Library.AList" "HOL-Library.Char_ord" "HOL-Library.List_Lexorder"
begin

section \<open>JavaScript values\<close>

text \<open>
  The report server is JavaScript, so its data is dynamically typed. A number is an IEEE
  double: here \<open>NaN\<close>, the two infinities, or a finite value, which is kept as an exact
  rational (rounding, overflow and the negative zero of doubles are left out; the theorems
  below that speak of sums state them as the left-to-right accumulation the code performs and
  use no law of arithmetic).
\<close>

datatype jsnum = NaN | Fin rat | PInf | NInf

fun jneg :: "jsnum \<Rightarrow> jsnum" where
  "jneg NaN = NaN"
| "jneg (Fin a) = Fin (- a)"
| "jneg PInf = NInf"
| "jneg NInf = PInf"

fun jadd :: "jsnum \<Rightarrow> jsnum \<Rightarrow> jsnum" where
  "jadd NaN y = NaN"
| "jadd x NaN = NaN"
| "jadd (Fin a) (Fin b) = Fin (a + b)"
| "jadd (Fin a) y = y"
| "jadd x (Fin b) = x"
| "jadd PInf PInf = PInf"
| "jadd NInf NInf = NInf"
| "jadd PInf NInf = NaN"
| "jadd NInf PInf = NaN"

definition jsub :: "jsnum \<Rightarrow> jsnum \<Rightarrow> jsnum" where
  "jsub x y = jadd x (jneg y)"

definition jsign :: "jsnum \<Rightarrow> int" where
  "jsign x = (case x of NaN \<Rightarrow> 0 | Fin a \<Rightarrow> (if a < 0 then -1 else if a = 0 then 0 else 1)
                | PInf \<Rightarrow> 1 | NInf \<Rightarrow> -1)"

fun jmul :: "jsnum \<Rightarrow> jsnum \<Rightarrow> jsnum" where
  "jmul NaN y = NaN"
| "jmul x NaN = NaN"
| "jmul (Fin a) (Fin b) = Fin (a * b)"
| "jmul x y = (let s = jsign x * jsign y in if s = 0 then NaN else if 0 < s then PInf else NInf)"

text \<open>Division by a positive finite constant (the code only divides by \<open>100\<close>).\<close>

fun jdiv :: "jsnum \<Rightarrow> rat \<Rightarrow> jsnum" where
  "jdiv (Fin a) c = Fin (a / c)"
| "jdiv x c = x"

definition isNaN :: "jsnum \<Rightarrow> bool" where
  "isNaN x = (x = NaN)"

text \<open>
  A value as a spreadsheet cell or a JSON field holds it. A \<open>Date\<close> object carries its time
  value in milliseconds since 1970-01-01T00:00:00Z, or nothing when it is an invalid date.
\<close>

datatype jsval = JUndefined | JNull | JBool bool | JNum jsnum | JStr string | JDate "int option"

text \<open>\<open>ToBoolean\<close>: what \<open>!v\<close> and \<open>a || b\<close> test.\<close>

fun truthy :: "jsval \<Rightarrow> bool" where
  "truthy JUndefined = False"
| "truthy JNull = False"
| "truthy (JBool b) = b"
| "truthy (JNum NaN) = False"
| "truthy (JNum (Fin a)) = (a \<noteq> 0)"
| "truthy (JNum x) = True"
| "truthy (JStr s) = (s \<noteq> [])"
| "truthy (JDate t) = True"

definition falsy :: "jsval \<Rightarrow> bool" where
  "falsy v = (\<not> truthy v)"

definition jor :: "jsval \<Rightarrow> jsval \<Rightarrow> jsval" where
  "jor a b = (if truthy a then a else b)"

text \<open>
  An object is its own enumerable properties in the order \<open>for ... in\<close> and the spread visit
  them. Reading a property that is not there gives \<open>undefined\<close>; writing replaces the value
  in place or appends the key. Strings are lists of 8-bit characters.
\<close>

type_synonym obj = "(string \<times> jsval) list"

definition getp :: "obj \<Rightarrow> string \<Rightarrow> jsval" where
  "getp r k = (case map_of r k of None \<Rightarrow> JUndefined | Some v \<Rightarrow> v)"

definition setp :: "obj \<Rightarrow> string \<Rightarrow> jsval \<Rightarrow> obj" where
  "setp r k v = AList.update k v r"

definition hasOwnProperty :: "obj \<Rightarrow> string \<Rightarrow> bool" where
  "hasOwnProperty r k = (k \<in> set (map fst r))"

section \<open>Strings\<close>

definition isDigit :: "char \<Rightarrow> bool" where
  "isDigit c = (let n = (of_char c :: nat) in 48 \<le> n \<and> n \<le> 57)"

definition digitVal :: "char \<Rightarrow> int" where
  "digitVal c = of_char c - 48"

definition isWhite :: "char \<Rightarrow> bool" where
  "isWhite c = ((of_char c :: nat) \<in> {9, 10, 11, 12, 13, 32, 160})"

text \<open>The value of a run of decimal digits, most significant first.\<close>

definition digitsVal :: "string \<Rightarrow> int" where
  "digitsVal ds = foldl (\<lambda>acc c. 10 * acc + digitVal c) 0 ds"

text \<open>\<open>s.split(c)\<close> for a one-character separator: always at least one piece.\<close>

fun split :: "char \<Rightarrow> string \<Rightarrow> string list" where
  "split c [] = [[]]"
| "split c (x # xs) =
     (if x = c then [] # split c xs
      else (case split c xs of p # ps \<Rightarrow> (x # p) # ps | [] \<Rightarrow> [[x]]))"

text \<open>Joining pieces with a separator: \<open>parts.join(sep)\<close>.\<close>

fun join :: "string \<Rightarrow> string list \<Rightarrow> string" where
  "join sep [] = []"
| "join sep [p] = p"
| "join sep (p # q # ps) = p @ sep @ join sep (q # ps)"

text \<open>
  The relational operators on two strings compare code units from the left; a proper prefix
  is smaller. \<open>a >= b\<close> is \<open>\<not> str_lt a b\<close> and \<open>a <= b\<close> is \<open>\<not> str_lt b a\<close>.
\<close>

fun str_lt :: "string \<Rightarrow> string \<Rightarrow> bool" where
  "str_lt [] [] = False"
| "str_lt [] (y # ys) = True"
| "str_lt (x # xs) [] = False"
| "str_lt (x # xs) (y # ys) =
     ((of_char x :: nat) < of_char y \<or> (x = y \<and> str_lt xs ys))"

section \<open>\<open>parseFloat\<close>\<close>

text \<open>
  \<open>parseFloat\<close> turns its argument into a string, skips leading white space and reads the
  longest prefix that is a decimal literal: an optional sign, then \<open>Infinity\<close> or digits with
  an optional fraction and an optional exponent. With no such prefix the result is \<open>NaN\<close>.
\<close>

definition takeDigits :: "string \<Rightarrow> string \<times> string" where
  "takeDigits s = (takeWhile isDigit s, dropWhile isDigit s)"

definition pow10 :: "int \<Rightarrow> rat" where
  "pow10 e = (if 0 \<le> e then 10 ^ nat e else 1 / 10 ^ nat (- e))"

definition exponentPart :: "string \<Rightarrow> int" where
  "exponentPart s =
     (case s of
        [] \<Rightarrow> 0
      | c # r \<Rightarrow>
          if c = CHR ''e'' \<or> c = CHR ''E'' then
            (case r of
               [] \<Rightarrow> 0
             | d # r' \<Rightarrow>
                 if d = CHR ''-'' then
                   - digitsVal (takeWhile isDigit r')
                 else if d = CHR ''+'' then digitsVal (takeWhile isDigit r')
                 else digitsVal (takeWhile isDigit r))
          else 0)"

definition parseUnsigned :: "string \<Rightarrow> jsnum" where
  "parseUnsigned s =
     (if take 8 s = ''Infinity'' then PInf
      else
        (let (ip, r1) = takeDigits s;
             (fp, r2) = (case r1 of
                           [] \<Rightarrow> ([], r1)
                         | c # t \<Rightarrow> if c = CHR ''.'' then takeDigits t else ([], r1))
         in if ip = [] \<and> fp = [] then NaN
            else Fin (of_int (digitsVal (ip @ fp)) / 10 ^ length fp * pow10 (exponentPart r2))))"

definition parseFloat_str :: "string \<Rightarrow> jsnum" where
  "parseFloat_str s =
     (case dropWhile isWhite s of
        [] \<Rightarrow> NaN
      | c # r \<Rightarrow>
          if c = CHR ''-'' then jneg (parseUnsigned r)
          else if c = CHR ''+'' then parseUnsigned r
          else parseUnsigned (c # r))"

text \<open>
  On a number the round trip through its string gives the number back. \<open>true\<close>, \<open>false\<close>,
  \<open>undefined\<close>, \<open>null\<close> and the text of a \<open>Date\<close> (which starts with a weekday name, or is
  \<open>Invalid Date\<close>) have no numeric prefix.
\<close>

fun parseFloat :: "jsval \<Rightarrow> jsnum" where
  "parseFloat (JNum n) = n"
| "parseFloat (JStr s) = parseFloat_str s"
| "parseFloat v = NaN"

section \<open>Dates\<close>

text \<open>
  A \<open>Date\<close> is a count of milliseconds since 1970-01-01T00:00:00Z. The calendar date of a day
  number and the day number of a calendar date are computed in the proleptic Gregorian
  calendar, as \<open>Date.UTC\<close> and \<open>toISOString\<close> do.
\<close>

definition msPerDay :: int where
  "msPerDay = 86400000"

definition days_from_civil :: "int \<Rightarrow> int \<Rightarrow> int \<Rightarrow> int" where
  "days_from_civil y m d =
     (let y1 = (if m \<le> 2 then y - 1 else y);
          era = y1 div 400;
          yoe = y1 - era * 400;
          doy = (153 * (if 2 < m then m - 3 else m + 9) + 2) div 5 + d - 1;
          doe = yoe * 365 + yoe div 4 - yoe div 100 + doy
      in era * 146097 + doe - 719468)"

definition civil_from_days :: "int \<Rightarrow> int \<times> int \<times> int" where
  "civil_from_days z =
     (let z1 = z + 719468;
          era = z1 div 146097;
          doe = z1 - era * 146097;
          yoe = (doe - doe div 1460 + doe div 36524 - doe div 146096) div 365;
          doy = doe - (365 * yoe + yoe div 4 - yoe div 100);
          mp = (5 * doy + 2) div 153;
          d = doy - (153 * mp + 2) div 5 + 1;
          m = (if mp < 10 then mp + 3 else mp - 9);
          y = yoe + era * 400
      in (if m \<le> 2 then y + 1 else y, m, d))"

text \<open>\<open>Date.UTC(year, monthIndex, day)\<close> for a month index from 0 to 11.\<close>

definition Date_UTC :: "int \<Rightarrow> int \<Rightarrow> int \<Rightarrow> int" where
  "Date_UTC y mi d = days_from_civil y (mi + 1) d * msPerDay"

text \<open>The last \<open>k\<close> decimal digits of a number that is not negative, zero-padded.\<close>

definition digitChar :: "int \<Rightarrow> char" where
  "digitChar d = ''0123456789'' ! nat d"

fun padded :: "nat \<Rightarrow> int \<Rightarrow> string" where
  "padded 0 n = []"
| "padded (Suc k) n = padded k (n div 10) @ [digitChar (n mod 10)]"

definition isoYear :: "int \<Rightarrow> string" where
  "isoYear y =
     (if 0 \<le> y \<and> y \<le> 9999 then padded 4 y
      else (if y < 0 then ''-'' else ''+'') @ padded 6 \<bar>y\<bar>)"

definition isoString :: "int \<Rightarrow> string" where
  "isoString t =
     (let (y, m, d) = civil_from_days (t div msPerDay);
          r = t mod msPerDay
      in isoYear y @ ''-'' @ padded 2 m @ ''-'' @ padded 2 d @ ''T''
         @ padded 2 (r div 3600000) @ '':'' @ padded 2 (r div 60000 mod 60) @ '':''
         @ padded 2 (r div 1000 mod 60) @ ''.'' @ padded 3 (r mod 1000) @ ''Z'')"

text \<open>
  The steps of \<open>civil_from_days\<close> by name: the 400-year era of a day and the day's place in
  it, the year of the era and the day's place in that year, the month counted from March and
  the day of the month. Then the count of months since the year 0, the order of calendar
  dates, the canonical text of a day number, and the day numbers of the years 0000 to 9999.
\<close>

definition eraOf :: "int \<Rightarrow> int" where
  "eraOf z = (z + 719468) div 146097"

definition dayOfEra :: "int \<Rightarrow> int" where
  "dayOfEra z = z + 719468 - eraOf z * 146097"

definition yearOfEra :: "int \<Rightarrow> int" where
  "yearOfEra doe = (doe - doe div 1460 + doe div 36524 - doe div 146096) div 365"

definition dayOfYear :: "int \<Rightarrow> int" where
  "dayOfYear doe = doe - (365 * yearOfEra doe + yearOfEra doe div 4 - yearOfEra doe div 100)"

definition monthFromMarch :: "int \<Rightarrow> int" where
  "monthFromMarch doy = (5 * doy + 2) div 153"

definition dayOfMonth :: "int \<Rightarrow> int" where
  "dayOfMonth doy = doy - (153 * monthFromMarch doy + 2) div 5 + 1"

definition monthIndex :: "int \<Rightarrow> int" where
  "monthIndex z = 12 * (yearOfEra (dayOfEra z) + 400 * eraOf z) + monthFromMarch (dayOfYear (dayOfEra z))"

definition dayText :: "int \<Rightarrow> string" where
  "dayText z = take 10 (isoString (z * msPerDay))"

definition lexDate :: "int \<times> int \<times> int \<Rightarrow> int \<times> int \<times> int \<Rightarrow> bool" where
  "lexDate p r = (fst p < fst r \<or> (fst p = fst r \<and>
      (fst (snd p) < fst (snd r) \<or> (fst (snd p) = fst (snd r) \<and> snd (snd p) < snd (snd r)))))"

definition inYears :: "int \<Rightarrow> bool" where
  "inYears z = (- 719528 \<le> z \<and> z \<le> 2932896)"

datatype jserror = RangeError string | TypeError string | Error string

fun message :: "jserror \<Rightarrow> string" where
  "message (RangeError m) = m"
| "message (TypeError m) = m"
| "message (Error m) = m"

text \<open>\<open>toISOString\<close> throws on an invalid date.\<close>

definition toISOString :: "int option \<Rightarrow> jserror + string" where
  "toISOString t =
     (case t of None \<Rightarrow> Inl (RangeError ''Invalid time value'') | Some ms \<Rightarrow> Inr (isoString ms))"

text \<open>\<open>d.toISOString().slice(0, 10)\<close>.\<close>

definition isoDay :: "int option \<Rightarrow> jserror + string" where
  "isoDay t = (case toISOString t of Inl e \<Rightarrow> Inl e | Inr s \<Rightarrow> Inr (take 10 s))"

text \<open>
  \<open>new Date(n)\<close> for a number: not finite or beyond 8.64e15 ms is an invalid date, a
  fraction is cut off towards zero.
\<close>

definition timeClip :: "jsnum \<Rightarrow> int option" where
  "timeClip n =
     (case n of
        Fin q \<Rightarrow> if \<bar>q\<bar> > 8640000000000000 then None
                 else Some (if 0 \<le> q then \<lfloor>q\<rfloor> else \<lceil>q\<rceil>)
      | _ \<Rightarrow> None)"

text \<open>
  What the JavaScript engine decides and the repository does not: how a string is parsed as
  a date (\<open>Date.parse\<close>: the time value, or nothing for an invalid date; only the ISO format
  is fixed by the language, the rest is up to the engine), how a number is written in a
  template literal, \<open>toFixed(2)\<close>, and how a \<open>Date\<close> is written as a string. Every function
  below takes the engine as a parameter.
\<close>

record engine =
  Date_parse :: "string \<Rightarrow> int option"
  Number_toString :: "jsnum \<Rightarrow> string"
  toFixed2 :: "jsnum \<Rightarrow> string"
  Date_toString :: "int option \<Rightarrow> string"

text \<open>\<open>new Date(v)\<close>.\<close>

fun newDate :: "engine \<Rightarrow> jsval \<Rightarrow> int option" where
  "newDate eng (JStr s) = Date_parse eng s"
| "newDate eng (JNum n) = timeClip n"
| "newDate eng (JDate t) = t"
| "newDate eng JUndefined = None"
| "newDate eng JNull = Some 0"
| "newDate eng (JBool b) = Some (if b then 1 else 0)"

text \<open>The regular expression \<open>/^\d{2}-\d{2}-\d{4}/\<close>, tested against the start of a string.\<close>

datatype pat = Digit | Lit char

fun matchPrefix :: "pat list \<Rightarrow> string \<Rightarrow> bool" where
  "matchPrefix [] s = True"
| "matchPrefix (p # ps) [] = False"
| "matchPrefix (Digit # ps) (c # cs) = (isDigit c \<and> matchPrefix ps cs)"
| "matchPrefix (Lit l # ps) (c # cs) = (c = l \<and> matchPrefix ps cs)"

definition ddmmyyyy :: "pat list" where
  "ddmmyyyy = [Digit, Digit, Lit CHR ''-'', Digit, Digit, Lit CHR ''-'', Digit, Digit, Digit, Digit]"

text \<open>An element of a destructured array, as a template literal prints it.\<close>

definition part :: "string list \<Rightarrow> nat \<Rightarrow> string" where
  "part ps i = (if i < length ps then ps ! i else ''undefined'')"

definition excelEpoch :: int where
  "excelEpoch = Date_UTC 1899 11 30"

text \<open>
  The branch for a number, the same in every copy of the function:
  \<open>new Date(excelEpoch.getTime() + (value - 1) * 86400000).toISOString().slice(0, 10)\<close>.
\<close>

definition serialDay :: "jsnum \<Rightarrow> jserror + string" where
  "serialDay n =
     isoDay (timeClip (jadd (Fin (of_int excelEpoch)) (jmul (jsub n (Fin 1)) (Fin 86400000))))"

subsection \<open>\<open>extractDateOnly\<close> of server.js\<close>

definition extractDateOnly :: "engine \<Rightarrow> jsval \<Rightarrow> jserror + string" where
  "extractDateOnly eng v =
     (if falsy v then Inr []
      else
        (case v of
           JNum n \<Rightarrow> serialDay n
         | JStr s \<Rightarrow>
             if matchPrefix ddmmyyyy s then
               (let ps = split CHR ''-'' (part (split CHR '' '' s) 0);
                    d = part ps 0; m = part ps 1; y = part ps 2
                in isoDay (Date_parse eng (y @ ''-'' @ m @ ''-'' @ d)))
             else isoDay (newDate eng v)
         | _ \<Rightarrow> isoDay (newDate eng v)))"

subsection \<open>\<open>extractDateOnly\<close> of the single-dataset server\<close>

text \<open>
  The older server kept beside the model files has the same function with a guard on the two
  parsing branches: an invalid date gives the empty string.
\<close>

definition guardedDay :: "int option \<Rightarrow> jserror + string" where
  "guardedDay t = (case t of None \<Rightarrow> Inr [] | Some ms \<Rightarrow> isoDay (Some ms))"

definition extractDateOnly_single :: "engine \<Rightarrow> jsval \<Rightarrow> jserror + string" where
  "extractDateOnly_single eng v =
     (if falsy v then Inr []
      else
        (case v of
           JNum n \<Rightarrow> serialDay n
         | JStr s \<Rightarrow>
             if matchPrefix ddmmyyyy s then
               (let ps = split CHR ''-'' (part (split CHR '' '' s) 0);
                    d = part ps 0; m = part ps 1; y = part ps 2
                in guardedDay (Date_parse eng (y @ ''-'' @ m @ ''-'' @ d)))
             else guardedDay (newDate eng v)
         | _ \<Rightarrow> guardedDay (newDate eng v)))"

subsection \<open>A reference engine\<close>

text \<open>
  For evaluating the handlers on concrete requests: an engine that parses the ISO date form
  \<open>YYYY-MM-DD\<close> (a calendar date, read as midnight UTC) and rejects every other string, and
  that writes a finite number in plain decimal notation (and a \<open>Date\<close> in the ISO form; no
  evaluation below writes one).
\<close>

definition daysInMonth :: "int \<Rightarrow> int \<Rightarrow> int" where
  "daysInMonth y m =
     (if m = 2 then (if y mod 4 = 0 \<and> (y mod 400 = 0 \<or> y mod 100 \<noteq> 0) then 29 else 28)
      else if m = 4 \<or> m = 6 \<or> m = 9 \<or> m = 11 then 30 else 31)"

definition isoDate_parse :: "string \<Rightarrow> int option" where
  "isoDate_parse s =
     (if length s = 10 \<and>
         matchPrefix [Digit, Digit, Digit, Digit, Lit CHR ''-'', Digit, Digit, Lit CHR ''-'', Digit, Digit] s
      then
        (let y = digitsVal (take 4 s); m = digitsVal (take 2 (drop 5 s));
             d = digitsVal (drop 8 s)
         in if 1 \<le> m \<and> m \<le> 12 \<and> 1 \<le> d \<and> d \<le> daysInMonth y m
            then Some (days_from_civil y m d * msPerDay) else None)
      else None)"

text \<open>A number that is not negative in decimal digits.\<close>

function decimal :: "int \<Rightarrow> string" where
  "decimal n = (if n < 10 then [digitChar n] else decimal (n div 10) @ [digitChar (n mod 10)])"
  by pat_completeness auto
termination
  by (relation "measure nat") auto

definition stripZeros :: "string \<Rightarrow> string" where
  "stripZeros ds = rev (dropWhile (\<lambda>c. c = CHR ''0'') (rev ds))"

definition plainDecimal :: "rat \<Rightarrow> string" where
  "plainDecimal q =
     (let a = \<bar>q\<bar>; ip = \<lfloor>a\<rfloor>;
          fr = stripZeros (padded 20 \<lfloor>(a - of_int ip) * 10 ^ 20\<rfloor>)
      in (if q < 0 then ''-'' else []) @ decimal ip @ (if fr = [] then [] else ''.'' @ fr))"

definition Number_toString_ref :: "jsnum \<Rightarrow> string" where
  "Number_toString_ref x =
     (case x of NaN \<Rightarrow> ''NaN'' | PInf \<Rightarrow> ''Infinity'' | NInf \<Rightarrow> ''-Infinity''
      | Fin q \<Rightarrow> plainDecimal q)"

text \<open>Two decimals, a tie rounded away from zero, the sign of a negative number kept.\<close>

definition toFixed2_ref :: "jsnum \<Rightarrow> string" where
  "toFixed2_ref x =
     (case x of NaN \<Rightarrow> ''NaN'' | PInf \<Rightarrow> ''Infinity'' | NInf \<Rightarrow> ''-Infinity''
      | Fin q \<Rightarrow>
          (let n = \<lfloor>\<bar>q\<bar> * 100 + 1 / 2\<rfloor>
           in (if q < 0 then ''-'' else []) @ decimal (n div 100) @ ''.'' @ padded 2 (n mod 100)))"

definition Date_toString_ref :: "int option \<Rightarrow> string" where
  "Date_toString_ref t = (case t of None \<Rightarrow> ''Invalid Date'' | Some ms \<Rightarrow> isoString ms)"

definition refEngine :: engine where
  "refEngine = \<lparr>Date_parse = isoDate_parse, Number_toString = Number_toString_ref,
                 toFixed2 = toFixed2_ref, Date_toString = Date_toString_ref\<rparr>"

section \<open>The two-panel server (server.js)\<close>

text \<open>
  \<open>globalDataMap\<close>: the rows last uploaded to each panel, keyed by the panel id. It starts as
  \<open>{ "1": [], "2": [] }\<close>. (The file of the upload model holds an older copy of the two
  handlers below, with the same date function and the same report loop; it takes the panel id
  from the query parameter \<open>id\<close> and keeps no record in a database. What follows is
  server.js.)
\<close>

type_synonym store = "string \<rightharpoonup> obj list"

definition initialStore :: store where
  "initialStore = [''1'' \<mapsto> [], ''2'' \<mapsto> []]"

text \<open>\<open>req.query.type === 'Withdrawal' ? '2' : '1'\<close>\<close>

definition panelOf :: "string option \<Rightarrow> string" where
  "panelOf qtype = (if qtype = Some ''Withdrawal'' then ''2'' else ''1'')"

text \<open>
  The uploaded file as the handler sees it: its names, and what reading the first sheet gives
  (the rows, or the error the spreadsheet library throws).
\<close>

datatype parsed = Unreadable string | Rows "obj list"

record upfile =
  originalname :: string
  path :: string
  content :: parsed

datatype response =
    Failure nat string
  | Uploaded "jsval list"
  | UploadedCount "jsval list" nat
  | Generated "obj list" string
  | GeneratedRange "obj list" string string

text \<open>\<open>err.message || fallback\<close>\<close>

definition messageOr :: "string \<Rightarrow> string \<Rightarrow> string" where
  "messageOr m fallback = (if m = [] then fallback else m)"

text \<open>
  The elements of \<open>[...new Set(xs)]\<close>: the first occurrence of each value, in order. A set
  holds primitive values by value and objects by identity; the \<open>Date\<close> objects of different
  cells are different objects.
\<close>

fun sameValueZero :: "jsval \<Rightarrow> jsval \<Rightarrow> bool" where
  "sameValueZero (JDate s) y = False"
| "sameValueZero x y = (x = y)"

fun uniq :: "jsval list \<Rightarrow> jsval list" where
  "uniq [] = []"
| "uniq (x # xs) = x # uniq (filter (\<lambda>y. \<not> sameValueZero x y) xs)"

definition dateVal :: "obj \<Rightarrow> jsval" where
  "dateVal row = jor (jor (getp row ''Date'') (getp row ''Transaction Date'')) (getp row ''Created At'')"

definition annotateRow :: "engine \<Rightarrow> obj \<Rightarrow> jserror + obj" where
  "annotateRow eng row =
     (case extractDateOnly eng (dateVal row) of
        Inl e \<Rightarrow> Inl e
      | Inr d \<Rightarrow> Inr (setp row ''DateOnly'' (JStr d)))"

text \<open>\<open>rawData.map(...)\<close> with a callback that may throw: the first error ends the map.\<close>

fun mapRows :: "(obj \<Rightarrow> jserror + obj) \<Rightarrow> obj list \<Rightarrow> jserror + obj list" where
  "mapRows f [] = Inr []"
| "mapRows f (r # rs) =
     (case f r of
        Inl e \<Rightarrow> Inl e
      | Inr r' \<Rightarrow> (case mapRows f rs of Inl e \<Rightarrow> Inl e | Inr rs' \<Rightarrow> Inr (r' # rs')))"

definition merchantsOf :: "obj list \<Rightarrow> jsval list" where
  "merchantsOf rows = uniq (filter truthy (map (\<lambda>r. getp r ''Merchant Name'') rows))"

record upload_doc =
  ud_panelId :: string
  ud_originalName :: string
  ud_filePath :: string
  ud_merchants :: "jsval list"
  ud_data :: "obj list"

record upload_out =
  up_reply :: response
  up_store :: store
  up_saved :: "upload_doc list"

text \<open>
  \<open>POST /api/upload\<close>. \<open>dbError\<close> is the error of \<open>UploadedFile.create\<close> when the database
  rejects the record.
\<close>

definition api_upload ::
  "engine \<Rightarrow> store \<Rightarrow> string option \<Rightarrow> upfile option \<Rightarrow> string option \<Rightarrow> upload_out" where
  "api_upload eng st qtype file dbError =
     (let panelId = panelOf qtype in
      case file of
        None \<Rightarrow> \<lparr>up_reply = Failure 400 ''No file uploaded'', up_store = st, up_saved = []\<rparr>
      | Some f \<Rightarrow>
          (case content f of
             Unreadable m \<Rightarrow>
               \<lparr>up_reply = Failure 500 (messageOr m ''Upload failed''), up_store = st, up_saved = []\<rparr>
           | Rows rawData \<Rightarrow>
               if rawData = [] then
                 \<lparr>up_reply = Failure 400 ''Excel file is empty'', up_store = st, up_saved = []\<rparr>
               else
                 (case mapRows (annotateRow eng) rawData of
                    Inl e \<Rightarrow>
                      \<lparr>up_reply = Failure 500 (messageOr (message e) ''Upload failed''),
                       up_store = st, up_saved = []\<rparr>
                  | Inr processedData \<Rightarrow>
                      (let merchants = merchantsOf processedData;
                           st' = st(panelId \<mapsto> processedData)
                       in case dbError of
                            Some m \<Rightarrow>
                              \<lparr>up_reply = Failure 500 (messageOr m ''Upload failed''),
                               up_store = st', up_saved = []\<rparr>
                          | None \<Rightarrow>
                              \<lparr>up_reply = Uploaded merchants, up_store = st',
                               up_saved = [\<lparr>ud_panelId = panelId, ud_originalName = originalname f,
                                            ud_filePath = path f, ud_merchants = merchants,
                                            ud_data = processedData\<rparr>]\<rparr>))))"

subsection \<open>Report generation\<close>

text \<open>
  \<open>row.DateOnly >= normalizedStart\<close> and \<open>row.DateOnly <= normalizedEnd\<close>. Both bounds are the
  first ten characters of an ISO date-time, which is never the text of a number: against a
  \<open>DateOnly\<close> that is a string the comparison is the one of strings, and against any other
  value both sides are converted to numbers, the bound becomes \<open>NaN\<close> and the comparison is
  false.
\<close>

definition ge_str :: "jsval \<Rightarrow> string \<Rightarrow> bool" where
  "ge_str v s = (case v of JStr d \<Rightarrow> \<not> str_lt d s | _ \<Rightarrow> False)"

definition le_str :: "jsval \<Rightarrow> string \<Rightarrow> bool" where
  "le_str v s = (case v of JStr d \<Rightarrow> \<not> str_lt s d | _ \<Rightarrow> False)"

definition inRange :: "string \<Rightarrow> string \<Rightarrow> obj \<Rightarrow> bool" where
  "inRange nStart nEnd row =
     (ge_str (getp row ''DateOnly'') nStart \<and> le_str (getp row ''DateOnly'') nEnd)"

definition rowMatches :: "string \<Rightarrow> string \<Rightarrow> string \<Rightarrow> obj \<Rightarrow> bool" where
  "rowMatches nStart nEnd merchant row =
     (inRange nStart nEnd row \<and> getp row ''Merchant Name'' = JStr merchant)"

definition selectRows :: "string \<Rightarrow> string \<Rightarrow> string \<Rightarrow> obj list \<Rightarrow> obj list" where
  "selectRows nStart nEnd merchant data = filter (rowMatches nStart nEnd merchant) data"

text \<open>An object literal: the keys are set one after the other.\<close>

definition objLit :: "(string \<times> jsval) list \<Rightarrow> obj" where
  "objLit kvs = foldl (\<lambda>r (k, v). setp r k v) [] kvs"

definition withdrawalOf :: "obj \<Rightarrow> jsnum" where
  "withdrawalOf row = parseFloat (jor (getp row ''Withdrawal Amount'') (JNum (Fin 0)))"

definition feeOf :: "obj \<Rightarrow> jsnum" where
  "feeOf row = parseFloat (jor (getp row ''Withdrawal Fees'') (JNum (Fin 0)))"

definition percentAmountOf :: "jsnum \<Rightarrow> obj \<Rightarrow> jsnum" where
  "percentAmountOf percent row = jdiv (jmul (withdrawalOf row) percent) 100"

definition percentKey :: "engine \<Rightarrow> jsnum \<Rightarrow> string" where
  "percentKey eng percent = Number_toString eng percent @ ''% Amount''"

definition detailRow :: "engine \<Rightarrow> string \<Rightarrow> jsnum \<Rightarrow> obj \<Rightarrow> obj" where
  "detailRow eng merchant percent row =
     objLit [(''Merchant'', JStr merchant),
             (''Withdrawal Amount'', JNum (withdrawalOf row)),
             (''Withdrawal Fees'', JNum (feeOf row)),
             (percentKey eng percent, JStr (toFixed2 eng (percentAmountOf percent row)))]"

text \<open>
  The body of \<open>rows.forEach\<close>: the running totals of one merchant and the detail rows so far.
\<close>

record totals =
  totalW :: jsnum
  totalF :: jsnum
  totalP :: jsnum

definition zeroTotals :: totals where
  "zeroTotals = \<lparr>totalW = Fin 0, totalF = Fin 0, totalP = Fin 0\<rparr>"

definition rowStep :: "engine \<Rightarrow> string \<Rightarrow> jsnum \<Rightarrow> totals \<times> obj list \<Rightarrow> obj \<Rightarrow> totals \<times> obj list" where
  "rowStep eng merchant percent acc row =
     (let withdrawal = withdrawalOf row;
          fee = feeOf row;
          percentAmount = percentAmountOf percent row
      in (\<lparr>totalW = jadd (totalW (fst acc)) withdrawal,
           totalF = jadd (totalF (fst acc)) fee,
           totalP = jadd (totalP (fst acc)) percentAmount\<rparr>,
          snd acc @ [detailRow eng merchant percent row]))"

definition subtotalRow :: "engine \<Rightarrow> string \<Rightarrow> jsnum \<Rightarrow> totals \<Rightarrow> obj" where
  "subtotalRow eng merchant percent t =
     objLit [(''Merchant'', JStr (''Total of '' @ merchant)),
             (''Withdrawal Amount'', JStr (toFixed2 eng (totalW t))),
             (''Withdrawal Fees'', JStr (toFixed2 eng (totalF t))),
             (percentKey eng percent, JStr (toFixed2 eng (totalP t)))]"

definition summaryRow :: "engine \<Rightarrow> string \<Rightarrow> jsnum \<Rightarrow> totals \<Rightarrow> obj" where
  "summaryRow eng merchant percent t =
     objLit [(''Merchant'', JStr merchant),
             (''Total Withdrawal Amount'', JStr (toFixed2 eng (totalW t))),
             (''Total Withdrawal Fees'', JStr (toFixed2 eng (totalF t))),
             (percentKey eng percent, JStr (toFixed2 eng (totalP t)))]"

definition grandDetailRow :: "engine \<Rightarrow> totals \<Rightarrow> obj" where
  "grandDetailRow eng g =
     objLit [(''Merchant'', JStr ''GRAND TOTAL''),
             (''Withdrawal Amount'', JStr (toFixed2 eng (totalW g))),
             (''Withdrawal Fees'', JStr (toFixed2 eng (totalF g))),
             (''TOTAL % Amount'', JStr (toFixed2 eng (totalP g)))]"

definition grandSummaryRow :: "engine \<Rightarrow> totals \<Rightarrow> obj" where
  "grandSummaryRow eng g =
     objLit [(''Merchant'', JStr ''TOTAL''),
             (''Total Withdrawal Amount'', JStr (toFixed2 eng (totalW g))),
             (''Total Withdrawal Fees'', JStr (toFixed2 eng (totalF g))),
             (''TOTAL % Amount'', JStr (toFixed2 eng (totalP g)))]"

text \<open>The state of the loop over the merchants of the request.\<close>

record genstate =
  filteredData :: "obj list"
  summaryData :: "obj list"
  grand :: totals

definition genInit :: genstate where
  "genInit = \<lparr>filteredData = [], summaryData = [], grand = zeroTotals\<rparr>"

definition addTotals :: "totals \<Rightarrow> totals \<Rightarrow> totals" where
  "addTotals g t =
     \<lparr>totalW = jadd (totalW g) (totalW t), totalF = jadd (totalF g) (totalF t),
      totalP = jadd (totalP g) (totalP t)\<rparr>"

text \<open>One round of \<open>for (const merchant in merchantPercents)\<close>.\<close>

definition merchantStep ::
  "engine \<Rightarrow> obj list \<Rightarrow> string \<Rightarrow> string \<Rightarrow> obj \<Rightarrow> genstate \<Rightarrow> string \<Rightarrow> genstate" where
  "merchantStep eng data nStart nEnd percents st merchant =
     (let percent = parseFloat (getp percents merchant) in
      if isNaN percent then st
      else
        (let rows = selectRows nStart nEnd merchant data in
         if rows = [] then st
         else
           (let r = foldl (rowStep eng merchant percent) (zeroTotals, filteredData st) rows
            in \<lparr>filteredData = snd r @ [subtotalRow eng merchant percent (fst r)],
                summaryData = summaryData st @ [summaryRow eng merchant percent (fst r)],
                grand = addTotals (grand st) (fst r)\<rparr>)))"

text \<open>
  The request body. \<open>merchantPercents\<close> is an object or missing; \<open>for ... in\<close> over a missing
  one runs no round.
\<close>

record genbody =
  merchantPercents :: "obj option"
  startDate :: jsval
  endDate :: jsval

definition entriesOf :: "obj option \<Rightarrow> obj" where
  "entriesOf mp = (case mp of None \<Rightarrow> [] | Some kv \<Rightarrow> kv)"

text \<open>
  What the handler meets outside the program: the clock, and the errors of writing the
  workbook and of saving the report record, when they fail.
\<close>

record world =
  now :: int
  writeError :: "string option"
  dbError :: "string option"

record workbook =
  wb_filename :: string
  wb_sheets :: "(string \<times> obj list) list"

record report_doc =
  rd_panelId :: string
  rd_startDate :: string
  rd_endDate :: string
  rd_merchantPercents :: "obj option"
  rd_summary :: "obj list"
  rd_downloadUrl :: string

record gen_out =
  gen_reply :: response
  gen_written :: "workbook list"
  gen_saved :: "report_doc list"

definition failed :: "nat \<Rightarrow> string \<Rightarrow> gen_out" where
  "failed code m = \<lparr>gen_reply = Failure code m, gen_written = [], gen_saved = []\<rparr>"

text \<open>The message of the \<open>TypeError\<close> of \<open>undefined.length\<close>.\<close>

definition undefinedLength :: string where
  "undefinedLength =
     ''Cannot read properties of undefined (reading '' @ [CHR 0x27] @ ''length'' @ [CHR 0x27] @ '')''"

text \<open>\<open>POST /api/generate\<close>. The handler reads the panel's rows and builds new objects only.\<close>

definition api_generate ::
  "engine \<Rightarrow> world \<Rightarrow> store \<Rightarrow> string option \<Rightarrow> genbody \<Rightarrow> gen_out" where
  "api_generate eng w st qtype body =
     (let panelId = panelOf qtype in
      case st panelId of
        None \<Rightarrow> failed 500 undefinedLength
      | Some data \<Rightarrow>
          if data = [] then failed 400 ''No data available''
          else
            (case isoDay (newDate eng (startDate body)) of
               Inl e \<Rightarrow> failed 500 (messageOr (message e) ''Failed to generate summary'')
             | Inr normalizedStart \<Rightarrow>
                 (case isoDay (newDate eng (endDate body)) of
                    Inl e \<Rightarrow> failed 500 (messageOr (message e) ''Failed to generate summary'')
                  | Inr normalizedEnd \<Rightarrow>
                      (let mp = entriesOf (merchantPercents body);
                           fin = foldl (merchantStep eng data normalizedStart normalizedEnd mp)
                                   genInit (map fst mp);
                           detail = filteredData fin @ [grandDetailRow eng (grand fin)];
                           summary = summaryData fin @ [grandSummaryRow eng (grand fin)];
                           filename = ''report-panel-'' @ panelId @ ''-''
                                        @ Number_toString eng (Fin (of_int (now w))) @ ''.xlsx'';
                           wb = \<lparr>wb_filename = filename,
                                 wb_sheets = [(''Detailed Data'', detail), (''Summary'', summary)]\<rparr>;
                           downloadUrl = ''/output/'' @ filename
                       in case writeError w of
                            Some m \<Rightarrow> failed 500 (messageOr m ''Failed to generate summary'')
                          | None \<Rightarrow>
                              (case dbError w of
                                 Some m \<Rightarrow>
                                   \<lparr>gen_reply = Failure 500 (messageOr m ''Failed to generate summary''),
                                    gen_written = [wb], gen_saved = []\<rparr>
                               | None \<Rightarrow>
                                   \<lparr>gen_reply = Generated summary downloadUrl,
                                    gen_written = [wb],
                                    gen_saved = [\<lparr>rd_panelId = panelId,
                                                  rd_startDate = normalizedStart,
                                                  rd_endDate = normalizedEnd,
                                                  rd_merchantPercents = merchantPercents body,
                                                  rd_summary = summary,
                                                  rd_downloadUrl = downloadUrl\<rparr>]\<rparr>)))))"

section \<open>The single-dataset server\<close>

text \<open>
  The file of the upload model also holds an earlier server with one dataset, \<open>globalData\<close>,
  and no panels. Its handlers validate more than those of server.js, and its report loop
  writes the percent amount into the rows of the dataset themselves: \<open>filter\<close> copies
  references, so a row of \<open>dateFiltered\<close> is the very object held in \<open>globalData\<close>. A row is
  therefore named here by its index in \<open>globalData\<close>.
\<close>

definition requiredColumns :: "string list" where
  "requiredColumns = [''Merchant Name'', ''Withdrawal Amount'', ''Withdrawal Fees'']"

definition dateColumns :: "string list" where
  "dateColumns = [''Date'', ''Transaction Date'', ''Created At'']"

definition missingColumns :: "obj \<Rightarrow> string list" where
  "missingColumns firstRow = filter (\<lambda>col. \<not> hasOwnProperty firstRow col) requiredColumns"

definition hasDateColumn :: "obj \<Rightarrow> bool" where
  "hasDateColumn firstRow = list_ex (\<lambda>key. key \<in> set dateColumns) (map fst firstRow)"

text \<open>\<open>missingColumns.length || !hasDateColumn\<close>\<close>

definition columnsMissing :: "obj \<Rightarrow> bool" where
  "columnsMissing firstRow = (\<not> (missingColumns firstRow = [] \<and> hasDateColumn firstRow))"

definition missingMessage :: "obj \<Rightarrow> string" where
  "missingMessage firstRow =
     ''Missing columns: '' @ join '', '' (missingColumns firstRow)
       @ (if hasDateColumn firstRow then [] else '', Date or Transaction Date or Created At'')"

definition annotateRow_single :: "engine \<Rightarrow> obj \<Rightarrow> jserror + obj" where
  "annotateRow_single eng row =
     (case extractDateOnly_single eng (dateVal row) of
        Inl e \<Rightarrow> Inl e
      | Inr d \<Rightarrow> Inr (setp row ''DateOnly'' (JStr d)))"

text \<open>\<open>String(v)\<close>, the key by which \<open>sort()\<close> orders.\<close>

fun toStringV :: "engine \<Rightarrow> jsval \<Rightarrow> string" where
  "toStringV eng (JStr s) = s"
| "toStringV eng (JNum n) = Number_toString eng n"
| "toStringV eng (JBool b) = (if b then ''true'' else ''false'')"
| "toStringV eng (JDate t) = Date_toString eng t"
| "toStringV eng JNull = ''null''"
| "toStringV eng JUndefined = ''undefined''"

definition merchantsOf_single :: "engine \<Rightarrow> obj list \<Rightarrow> jsval list" where
  "merchantsOf_single eng rows = sort_key (toStringV eng) (merchantsOf rows)"

record upload_single_out =
  us_reply :: response
  us_globalData :: "obj list"

text \<open>\<open>POST /upload\<close>\<close>

definition upload_single :: "engine \<Rightarrow> obj list \<Rightarrow> upfile option \<Rightarrow> upload_single_out" where
  "upload_single eng globalData file =
     (case file of
        None \<Rightarrow> \<lparr>us_reply = Failure 400 ''No file uploaded'', us_globalData = globalData\<rparr>
      | Some f \<Rightarrow>
          (case content f of
             Unreadable m \<Rightarrow>
               \<lparr>us_reply = Failure 500 (messageOr m ''Upload failed''), us_globalData = globalData\<rparr>
           | Rows rawData \<Rightarrow>
               (case rawData of
                  [] \<Rightarrow> \<lparr>us_reply = Failure 400 ''Excel file is empty'', us_globalData = globalData\<rparr>
                | firstRow # rest \<Rightarrow>
                    if columnsMissing firstRow then
                      \<lparr>us_reply = Failure 400 (missingMessage firstRow), us_globalData = globalData\<rparr>
                    else
                      (case mapRows (annotateRow_single eng) rawData of
                         Inl e \<Rightarrow>
                           \<lparr>us_reply = Failure 500 (messageOr (message e) ''Upload failed''),
                            us_globalData = globalData\<rparr>
                       | Inr processed \<Rightarrow>
                           \<lparr>us_reply = UploadedCount (merchantsOf_single eng processed) (length processed),
                            us_globalData = processed\<rparr>))))"

subsection \<open>Report generation on the single dataset\<close>

record sstate =
  s_rows :: "obj list"
  s_filtered :: "nat list"
  s_summary :: "obj list"
  s_grand :: totals

text \<open>The body of \<open>rows.forEach\<close>: the row at index \<open>i\<close> gets the percent column.\<close>

definition rowStep_single ::
  "engine \<Rightarrow> jsnum \<Rightarrow> totals \<times> obj list \<times> nat list \<Rightarrow> nat \<Rightarrow> totals \<times> obj list \<times> nat list" where
  "rowStep_single eng percent acc i =
     (let t = fst acc; rows = fst (snd acc); pushed = snd (snd acc);
          row = rows ! i;
          withdrawal = withdrawalOf row;
          fee = feeOf row;
          percentAmount = percentAmountOf percent row
      in (\<lparr>totalW = jadd (totalW t) withdrawal,
           totalF = jadd (totalF t) fee,
           totalP = jadd (totalP t) percentAmount\<rparr>,
          rows[i := setp row (percentKey eng percent) (JNum percentAmount)],
          pushed @ [i]))"

definition summaryRow_single :: "engine \<Rightarrow> string \<Rightarrow> jsnum \<Rightarrow> totals \<Rightarrow> obj" where
  "summaryRow_single eng merchant percent t =
     objLit [(''Merchant'', JStr merchant),
             (''Total Withdrawal Amount'', JNum (totalW t)),
             (''Total Withdrawal Fees'', JNum (totalF t)),
             (percentKey eng percent, JNum (totalP t))]"

definition grandRow_single :: "totals \<Rightarrow> obj" where
  "grandRow_single g =
     objLit [(''Merchant'', JStr ''TOTAL''),
             (''Total Withdrawal Amount'', JNum (totalW g)),
             (''Total Withdrawal Fees'', JNum (totalF g)),
             (''TOTAL % Amount'', JNum (totalP g))]"

definition merchantStep_single ::
  "engine \<Rightarrow> nat list \<Rightarrow> obj \<Rightarrow> sstate \<Rightarrow> string \<Rightarrow> sstate" where
  "merchantStep_single eng dateFiltered percents st merchant =
     (let percent = parseFloat (getp percents merchant) in
      if isNaN percent then st
      else
        (let rows = filter (\<lambda>i. getp (s_rows st ! i) ''Merchant Name'' = JStr merchant) dateFiltered in
         if rows = [] then st
         else
           (let r = foldl (rowStep_single eng percent) (zeroTotals, s_rows st, s_filtered st) rows
            in \<lparr>s_rows = fst (snd r),
                s_filtered = snd (snd r),
                s_summary = s_summary st @ [summaryRow_single eng merchant percent (fst r)],
                s_grand = addTotals (s_grand st) (fst r)\<rparr>)))"

text \<open>The summary of the response: every number written with two decimals.\<close>

definition formatRow :: "engine \<Rightarrow> obj \<Rightarrow> obj" where
  "formatRow eng row =
     map (\<lambda>(k, v). (k, case v of JNum n \<Rightarrow> JStr (toFixed2 eng n) | _ \<Rightarrow> v)) row"

record gen_single_out =
  gs_reply :: response
  gs_globalData :: "obj list"
  gs_written :: "workbook list"

definition failed_single :: "obj list \<Rightarrow> nat \<Rightarrow> string \<Rightarrow> gen_single_out" where
  "failed_single globalData code m =
     \<lparr>gs_reply = Failure code m, gs_globalData = globalData, gs_written = []\<rparr>"

text \<open>\<open>POST /generate\<close>\<close>

definition generate_single :: "engine \<Rightarrow> world \<Rightarrow> obj list \<Rightarrow> genbody \<Rightarrow> gen_single_out" where
  "generate_single eng w globalData body =
     (if merchantPercents body = None \<or> falsy (startDate body) \<or> falsy (endDate body)
      then failed_single globalData 400 ''Missing filters''
      else
        (case isoDay (newDate eng (startDate body)) of
           Inl e \<Rightarrow> failed_single globalData 500 (messageOr (message e) ''Failed to generate report'')
         | Inr normalizedStart \<Rightarrow>
             (case isoDay (newDate eng (endDate body)) of
                Inl e \<Rightarrow> failed_single globalData 500 (messageOr (message e) ''Failed to generate report'')
              | Inr normalizedEnd \<Rightarrow>
                  if str_lt normalizedEnd normalizedStart
                  then failed_single globalData 400 ''Start date after end date''
                  else
                    (let dateFiltered =
                           filter (\<lambda>i. inRange normalizedStart normalizedEnd (globalData ! i))
                             [0 ..< length globalData]
                     in if dateFiltered = [] then failed_single globalData 404 ''No data in date range''
                        else
                          (let mp = entriesOf (merchantPercents body);
                               fin = foldl (merchantStep_single eng dateFiltered mp)
                                       \<lparr>s_rows = globalData, s_filtered = [], s_summary = [],
                                        s_grand = zeroTotals\<rparr> (map fst mp)
                           in if s_summary fin = []
                              then failed_single (s_rows fin) 404 ''No matching merchant data''
                              else
                                (let summary = s_summary fin @ [grandRow_single (s_grand fin)];
                                     filename = ''merchant_report_''
                                        @ Number_toString eng (Fin (of_int (now w))) @ ''.xlsx'';
                                     wb = \<lparr>wb_filename = filename,
                                           wb_sheets =
                                             [(''Filtered Data'', map (\<lambda>i. s_rows fin ! i) (s_filtered fin)),
                                              (''Summary'', summary)]\<rparr>
                                 in case writeError w of
                                      Some m \<Rightarrow>
                                        failed_single (s_rows fin) 500
                                          (messageOr m ''Failed to generate report'')
                                    | None \<Rightarrow>
                                        \<lparr>gs_reply =
                                           GeneratedRange (map (formatRow eng) summary)
                                             (''/output/'' @ filename)
                                             (normalizedStart @ '' to '' @ normalizedEnd),
                                         gs_globalData = s_rows fin,
                                         gs_written = [wb]\<rparr>))))))"

section \<open>What a report should hold\<close>

text \<open>
  The merchants of a request that reach the report: those whose percent is a number and that
  have a row in range. For each the totals over its rows, each total accumulated from zero in
  the order of the rows, and for the report the totals over those, in the order of the request.
\<close>

definition percentOf :: "obj \<Rightarrow> string \<Rightarrow> jsnum" where
  "percentOf percents merchant = parseFloat (getp percents merchant)"

definition included :: "obj list \<Rightarrow> string \<Rightarrow> string \<Rightarrow> obj \<Rightarrow> string \<Rightarrow> bool" where
  "included data nStart nEnd percents merchant =
     (\<not> isNaN (percentOf percents merchant) \<and> selectRows nStart nEnd merchant data \<noteq> [])"

definition sumOf :: "jsnum list \<Rightarrow> jsnum" where
  "sumOf xs = foldl jadd (Fin 0) xs"

definition merchantTotals :: "jsnum \<Rightarrow> obj list \<Rightarrow> totals" where
  "merchantTotals percent rows =
     \<lparr>totalW = sumOf (map withdrawalOf rows),
      totalF = sumOf (map feeOf rows),
      totalP = sumOf (map (percentAmountOf percent) rows)\<rparr>"

definition totalsFor :: "obj list \<Rightarrow> string \<Rightarrow> string \<Rightarrow> obj \<Rightarrow> string \<Rightarrow> totals" where
  "totalsFor data nStart nEnd percents merchant =
     merchantTotals (percentOf percents merchant) (selectRows nStart nEnd merchant data)"

definition grandTotals :: "totals list \<Rightarrow> totals" where
  "grandTotals ts =
     \<lparr>totalW = sumOf (map totalW ts), totalF = sumOf (map totalF ts),
      totalP = sumOf (map totalP ts)\<rparr>"

text \<open>The rows one included merchant adds to the detail sheet.\<close>

definition blockOf :: "engine \<Rightarrow> obj list \<Rightarrow> string \<Rightarrow> string \<Rightarrow> obj \<Rightarrow> string \<Rightarrow> obj list" where
  "blockOf eng data nStart nEnd percents merchant =
     map (detailRow eng merchant (percentOf percents merchant)) (selectRows nStart nEnd merchant data)
     @ [subtotalRow eng merchant (percentOf percents merchant)
          (totalsFor data nStart nEnd percents merchant)]"

section \<open>Sample data\<close>

text \<open>
  The scenario of the specification: merchant Acme with withdrawals 100 and 200 and fees 5
  and 10 on the first two days of 2024, the second date written day first.
\<close>

definition acmeSheet :: "obj list" where
  "acmeSheet =
     [[(''Merchant Name'', JStr ''Acme''), (''Withdrawal Amount'', JNum (Fin 100)),
       (''Withdrawal Fees'', JNum (Fin 5)), (''Date'', JStr ''2024-01-01'')],
      [(''Merchant Name'', JStr ''Acme''), (''Withdrawal Amount'', JNum (Fin 200)),
       (''Withdrawal Fees'', JNum (Fin 10)), (''Date'', JStr ''02-01-2024'')]]"

definition acmeRows :: "obj list" where
  "acmeRows =
     [[(''Merchant Name'', JStr ''Acme''), (''Withdrawal Amount'', JNum (Fin 100)),
       (''Withdrawal Fees'', JNum (Fin 5)), (''Date'', JStr ''2024-01-01''),
       (''DateOnly'', JStr ''2024-01-01'')],
      [(''Merchant Name'', JStr ''Acme''), (''Withdrawal Amount'', JNum (Fin 200)),
       (''Withdrawal Fees'', JNum (Fin 10)), (''Date'', JStr ''02-01-2024''),
       (''DateOnly'', JStr ''2024-01-02'')]]"

definition acmeFile :: upfile where
  "acmeFile = \<lparr>originalname = ''acme.xlsx'', path = ''uploads/panel-1-input.xlsx'',
                content = Rows acmeSheet\<rparr>"

definition acmeStore :: store where
  "acmeStore = initialStore(''1'' \<mapsto> acmeRows)"

definition calmWorld :: world where
  "calmWorld = \<lparr>now = 1718000000000, writeError = None, dbError = None\<rparr>"

text \<open>Three requests on that data: the scenario's, one with the dates reversed, one for a
  merchant the data does not have.\<close>

definition acmeRequest :: genbody where
  "acmeRequest = \<lparr>merchantPercents = Some [(''Acme'', JStr ''2.5'')],
                   startDate = JStr ''2024-01-01'', endDate = JStr ''2024-01-02''\<rparr>"

definition reversedRequest :: genbody where
  "reversedRequest = \<lparr>merchantPercents = Some [(''Acme'', JStr ''2.5'')],
                       startDate = JStr ''2024-02-01'', endDate = JStr ''2024-01-01''\<rparr>"

definition ghostRequest :: genbody where
  "ghostRequest = \<lparr>merchantPercents = Some [(''Ghost'', JStr ''5'')],
                    startDate = JStr ''2024-01-01'', endDate = JStr ''2024-01-02''\<rparr>"

definition zeroSummary :: "obj list" where
  "zeroSummary =
     [[(''Merchant'', JStr ''TOTAL''), (''Total Withdrawal Amount'', JStr ''0.00''),
       (''Total Withdrawal Fees'', JStr ''0.00''), (''TOTAL % Amount'', JStr ''0.00'')]]"







text \<open>A row of the last day of 2023.\<close>

definition eveRow :: obj where
  "eveRow =
     [(''Merchant Name'', JStr ''Acme''), (''Withdrawal Amount'', JNum (Fin 50)),
      (''Withdrawal Fees'', JNum (Fin 1)), (''Date'', JStr ''2023-12-31''),
      (''DateOnly'', JStr ''2023-12-31'')]"

text \<open>A sheet with none of the required columns.\<close>

definition fooFile :: upfile where
  "fooFile = \<lparr>originalname = ''foo.xlsx'', path = ''uploads/panel-1-input.xlsx'',
               content = Rows [[(''Foo'', JNum (Fin 1))]]\<rparr>"

section \<open>The date normalizer\<close>

text \<open>
  C5. A numeric input is a spreadsheet serial counted from the epoch 1899-12-30, so that serial
  1 would be 1899-12-31 and serial 45000 the day 45000 days after the epoch, 2023-03-15. The
  function adds \<open>value - 1\<close> days to the epoch instead: serial 1 gives the epoch itself,
  1899-12-30, and serial 45000 gives 2023-03-14, one day early. The last conjunct is the date
  45000 days after the epoch.
\<close>

theorem extractDateOnly_serial_one_day_early:
  "extractDateOnly eng (JNum (Fin 1)) = Inr ''1899-12-30''
   \<and> extractDateOnly eng (JNum (Fin 45000)) = Inr ''2023-03-14''
   \<and> isoDay (Some (excelEpoch + 45000 * msPerDay)) = Inr ''2023-03-15''"
proof -
  have one: "serialDay (Fin 1) = Inr ''1899-12-30''"
    by code_simp
  have many: "serialDay (Fin 45000) = Inr ''2023-03-14''"
    by code_simp
  have due: "isoDay (Some (excelEpoch + 45000 * msPerDay)) = Inr ''2023-03-15''"
    by code_simp
  show ?thesis
    using one many due by (simp add: extractDateOnly_def falsy_def)
qed

text \<open>
  C6. The normalizer is to return on every input, with the empty string when a date does not
  parse. In server.js the parsed date goes to \<open>toISOString\<close> unguarded, which throws on an
  invalid date: the text \<open>hello\<close> makes the function throw a \<open>RangeError\<close>, and the upload
  that meets it in a date column fails with status 500. The copy in the single-dataset server
  returns the empty string there, but its branch for a number has no guard either: a serial
  of a thousand million days is beyond the range of \<open>Date\<close> and throws as well.
\<close>

theorem extractDateOnly_throws_on_unparsable_text:
  "extractDateOnly refEngine (JStr ''hello'') = Inl (RangeError ''Invalid time value'')
   \<and> up_reply (api_upload refEngine initialStore None
        (Some \<lparr>originalname = ''bad.xlsx'', path = ''uploads/panel-1-input.xlsx'',
               content = Rows [[(''Merchant Name'', JStr ''Acme''), (''Date'', JStr ''hello'')]]\<rparr>)
        None) = Failure 500 ''Invalid time value''
   \<and> extractDateOnly_single refEngine (JStr ''hello'') = Inr []
   \<and> extractDateOnly_single refEngine (JNum (Fin 1000000000))
       = Inl (RangeError ''Invalid time value'')"
  by code_simp

text \<open>
  The copy of the function in the single-dataset server returns on every input that is not a
  number: its guard turns an invalid date into the empty string. (The branch for a number has
  no guard in either copy.)
\<close>

lemma guardedDay_returns: "\<exists>d. guardedDay t = Inr d"
  by (cases t) (simp_all add: guardedDay_def isoDay_def toISOString_def)

lemma extractDateOnly_single_returns:
  assumes "\<forall>n. v \<noteq> JNum n"
  shows "\<exists>d. extractDateOnly_single eng v = Inr d"
  using assms guardedDay_returns
  by (cases v) (auto simp: extractDateOnly_single_def Let_def)

section \<open>Validation of requests\<close>

text \<open>
  C3. A request whose start date is after its end date is to be rejected and no report
  written. The handler of server.js never compares the two dates: with the dates reversed no
  row is in range, every merchant is skipped, and the request succeeds with a report of zero
  totals, which is written. The single-dataset server answers the same request with status
  400, \<open>Start date after end date\<close>, and writes nothing.
\<close>

theorem api_generate_accepts_reversed_dates:
  "gen_reply (api_generate refEngine calmWorld acmeStore None reversedRequest)
     = Generated zeroSummary ''/output/report-panel-1-1718000000000.xlsx''
   \<and> map wb_filename (gen_written (api_generate refEngine calmWorld acmeStore None reversedRequest))
     = [''report-panel-1-1718000000000.xlsx'']
   \<and> gs_reply (generate_single refEngine calmWorld acmeRows reversedRequest)
     = Failure 400 ''Start date after end date''
   \<and> gs_written (generate_single refEngine calmWorld acmeRows reversedRequest) = []"
  by code_simp

text \<open>
  C4. When no merchant of the request produces a row the request is to fail. The handler of
  server.js has no such check: asked for a merchant the data does not have, it succeeds with a
  summary that holds the zero total alone, and writes the report. The single-dataset server
  answers status 404, \<open>No matching merchant data\<close>.
\<close>

theorem api_generate_succeeds_without_merchant_rows:
  "gen_reply (api_generate refEngine calmWorld acmeStore None ghostRequest)
     = Generated zeroSummary ''/output/report-panel-1-1718000000000.xlsx''
   \<and> map wb_filename (gen_written (api_generate refEngine calmWorld acmeStore None ghostRequest))
     = [''report-panel-1-1718000000000.xlsx'']
   \<and> gs_reply (generate_single refEngine calmWorld acmeRows ghostRequest)
     = Failure 404 ''No matching merchant data''
   \<and> gs_written (generate_single refEngine calmWorld acmeRows ghostRequest) = []"
  by code_simp

text \<open>
  C8. A sheet without the required columns is to be rejected with the list of what is missing,
  and nothing ingested. The upload handler of server.js checks no column: a sheet whose only
  column is \<open>Foo\<close> is accepted and replaces the dataset of the panel. The single-dataset
  server rejects the same sheet, names the missing columns and keeps its dataset.
\<close>

theorem api_upload_accepts_sheet_without_columns:
  "up_reply (api_upload refEngine acmeStore None (Some fooFile) None) = Uploaded []
   \<and> up_store (api_upload refEngine acmeStore None (Some fooFile) None) ''1''
     = Some [[(''Foo'', JNum (Fin 1)), (''DateOnly'', JStr [])]]
   \<and> us_reply (upload_single refEngine acmeRows (Some fooFile))
     = Failure 400 ''Missing columns: Merchant Name, Withdrawal Amount, Withdrawal Fees, Date or Transaction Date or Created At''
   \<and> us_globalData (upload_single refEngine acmeRows (Some fooFile)) = acmeRows"
  by code_simp

text \<open>
  What the single-dataset server checks, for every request: reversed dates are rejected, a
  report that succeeds has the row of at least one merchant before its total row, and a sheet
  whose first row lacks a required column or every date column is rejected with the message
  that lists the missing ones, the dataset kept. The handler of server.js, given a panel with
  data and two dates that parse, never rejects a request.
\<close>

lemma generate_single_rejects_reversed_dates:
  assumes "merchantPercents body \<noteq> None" "truthy (startDate body)" "truthy (endDate body)"
    and "isoDay (newDate eng (startDate body)) = Inr nStart"
    and "isoDay (newDate eng (endDate body)) = Inr nEnd"
    and "str_lt nEnd nStart"
  shows "generate_single eng w globalData body
           = failed_single globalData 400 ''Start date after end date''"
  using assms by (auto simp: generate_single_def falsy_def)

lemma generate_single_needs_a_merchant:
  assumes "gs_reply (generate_single eng w globalData body) = GeneratedRange summary url dates"
  shows "2 \<le> length summary"
proof -
  have len: "xs \<noteq> [] \<Longrightarrow> 2 \<le> length (map f (xs @ [g]))" for xs :: "obj list" and f g
    by (cases xs) simp_all
  show ?thesis
    using assms len
    by (auto simp: generate_single_def failed_single_def Let_def
        split: if_splits sum.splits option.splits)
qed

lemma upload_single_rejects_missing_columns:
  assumes "content f = Rows (firstRow # rest)" "columnsMissing firstRow"
  shows "upload_single eng globalData (Some f)
           = \<lparr>us_reply = Failure 400 (missingMessage firstRow), us_globalData = globalData\<rparr>"
  using assms by (simp add: upload_single_def)

lemma missingColumns_exact:
  "set (missingColumns firstRow) = {c \<in> set requiredColumns. c \<notin> fst ` set firstRow}"
  by (auto simp: missingColumns_def hasOwnProperty_def)

lemma api_generate_never_rejects:
  assumes "st (panelOf qtype) = Some data" "data \<noteq> []"
    and "isoDay (newDate eng (startDate body)) = Inr nStart"
    and "isoDay (newDate eng (endDate body)) = Inr nEnd"
    and "writeError w = None" "dbError w = None"
  shows "\<exists>summary url. gen_reply (api_generate eng w st qtype body) = Generated summary url
           \<and> length (gen_written (api_generate eng w st qtype body)) = 1"
  using assms by (simp add: api_generate_def Let_def)

section \<open>The stored rows\<close>

text \<open>
  C9. Generating a report is to leave every stored row as it was ingested. The report loop of
  the single-dataset server assigns the percent amount to the row it is looking at, which is
  the stored row itself: after the scenario's request both rows of the dataset have a new
  column \<open>2.5% Amount\<close>.
\<close>

theorem generate_single_changes_stored_rows:
  "gs_globalData (generate_single refEngine calmWorld acmeRows acmeRequest)
     = [acmeRows ! 0 @ [(''2.5% Amount'', JNum (Fin (5 / 2)))],
        acmeRows ! 1 @ [(''2.5% Amount'', JNum (Fin 5))]]
   \<and> gs_globalData (generate_single refEngine calmWorld acmeRows acmeRequest) \<noteq> acmeRows"
  by code_simp

lemma dom_initialStore: "dom initialStore = {''1'', ''2''}"
  by (auto simp: initialStore_def)

lemma panelOf_cases: "panelOf q = ''1'' \<or> panelOf q = ''2''"
  by (simp add: panelOf_def)

text \<open>
  C10. An upload replaces the dataset of the panel the request selects and nothing else: the
  store keeps its two keys, and the dataset under every other key is the one it was. This
  holds for every outcome of the upload, also when it fails after the dataset was replaced.
\<close>

theorem api_upload_keeps_other_panel:
  assumes "dom st = {''1'', ''2''}"
  shows "dom (up_store (api_upload eng st qtype file dbErr)) = dom st
       \<and> (\<forall>p. p \<noteq> panelOf qtype \<longrightarrow> up_store (api_upload eng st qtype file dbErr) p = st p)"
proof -
  have in_dom: "panelOf qtype \<in> dom st"
    using assms panelOf_cases[of qtype] by auto
  show ?thesis
    using in_dom
    by (auto simp: api_upload_def Let_def split: option.splits parsed.splits sum.splits)
qed

theorem api_upload_keeps_other_panel_witness:
  "dom acmeStore = {''1'', ''2''}
   \<and> dom (up_store (api_upload refEngine acmeStore (Some ''Withdrawal'') (Some acmeFile) None)) = dom acmeStore
   \<and> ''1'' \<noteq> panelOf (Some ''Withdrawal'')
   \<and> up_store (api_upload refEngine acmeStore (Some ''Withdrawal'') (Some acmeFile) None) ''1'' = Some acmeRows"
proof -
  have d: "dom acmeStore = {''1'', ''2''}"
    by (auto simp: acmeStore_def initialStore_def)
  have p: "''1'' \<noteq> panelOf (Some ''Withdrawal'')"
    by (simp add: panelOf_def)
  have a: "acmeStore ''1'' = Some acmeRows"
    by (simp add: acmeStore_def)
  show ?thesis
    using d p a api_upload_keeps_other_panel[OF d, of refEngine "Some ''Withdrawal''" "Some acmeFile" None]
    by simp
qed

section \<open>The calendar order of dates\<close>

text \<open>
  The text \<open>YYYY-MM-DD\<close> of a later day is the greater string. First the arithmetic of
  \<open>civil_from_days\<close>: a day of an era is a century, a four-year cycle, a year and a day, from
  which the year of the era is read off.
\<close>

lemma div_eqI: 
  fixes n a r x :: int
  assumes "x = n * a + r" "0 \<le> r" "r < n"
  shows "x div n = a"
proof -
  have "n \<noteq> 0" using assms by linarith
  then have "(r + n * a) div n = a + r div n" by (rule div_mult_self2)
  moreover have "r div n = 0" using assms by (simp add: div_pos_pos_trivial)
  ultimately show ?thesis using assms(1) by (simp add: add.commute)
qed

lemma yoe_core:
  fixes c q k t doe :: int
  assumes "0 \<le> c" "c \<le> 3" "0 \<le> q" "q \<le> 24" "0 \<le> k" "k \<le> 3" "0 \<le> t" "t \<le> 365"
    and top: "t = 365 \<Longrightarrow> k = 3 \<and> (q < 24 \<or> c = 3)"
    and doe: "doe = 36524 * c + 1461 * q + 365 * k + t"
  shows "(doe - doe div 1460 + doe div 36524 - doe div 146096) div 365 = 100 * c + 4 * q + k"
proof -
  define R where "R = 24 * c + q + 365 * k + t"
  define e :: int where "e = (if 1460 \<le> R then 1 else 0)"
  have Rb: "0 \<le> R" "R < 2920" using assms by (simp_all add: R_def)
  have A: "doe div 1460 = 25 * c + q + e"
  proof (cases "1460 \<le> R")
    case True
    have "doe = 1460 * (25 * c + q + 1) + (R - 1460)" using doe by (simp add: R_def)
    then have "doe div 1460 = 25 * c + q + 1"
      using True Rb div_eqI[of doe 1460 "25 * c + q + 1" "R - 1460"] by simp
    then show ?thesis using True by (simp add: e_def)
  next
    case False
    have "doe = 1460 * (25 * c + q) + R" using doe by (simp add: R_def)
    then have "doe div 1460 = 25 * c + q"
      using False Rb div_eqI[of doe 1460 "25 * c + q" R] by simp
    then show ?thesis using False by (simp add: e_def)
  qed
  have BC: "doe div 36524 - doe div 146096 = c"
  proof (cases "1461 * q + 365 * k + t = 36524")
    case True
    then have "q = 24" "k = 3" "t = 365" using assms by linarith+
    then have "c = 3" using top by simp
    then have "doe = 146096" using doe True by simp
    then show ?thesis using \<open>c = 3\<close> by simp
  next
    case False
    have lt: "1461 * q + 365 * k + t < 36524" using False assms by linarith
    have ge: "0 \<le> 1461 * q + 365 * k + t" using assms by simp
    have "doe = 36524 * c + (1461 * q + 365 * k + t)" using doe by simp
    then have B: "doe div 36524 = c"
      using ge lt div_eqI[of doe 36524 c "1461 * q + 365 * k + t"] by simp
    have "0 \<le> doe" "doe < 146096" using doe lt assms by linarith+
    then have "doe div 146096 = 0" by (simp add: div_pos_pos_trivial)
    then show ?thesis using B by simp
  qed
  have e1: "e = 1 \<Longrightarrow> 1 \<le> t" using assms by (auto simp: e_def R_def split: if_splits)
  have e0: "e = 0 \<Longrightarrow> t \<le> 364"
  proof -
    assume "e = 0"
    then have "R < 1460" by (auto simp: e_def split: if_splits)
    show "t \<le> 364"
    proof (rule ccontr)
      assume "\<not> t \<le> 364"
      then have "t = 365" using assms by linarith
      then have "k = 3" using top by simp
      then show False using \<open>R < 1460\<close> \<open>t = 365\<close> assms by (simp add: R_def)
    qed
  qed
  have ev: "e = 0 \<or> e = 1" by (simp add: e_def)
  have f: "doe - doe div 1460 + doe div 36524 - doe div 146096
        = 365 * (100 * c + 4 * q + k) + (t - e)"
    using A BC doe by simp
  have "0 \<le> t - e" "t - e < 365"
    using e1 e0 ev assms(7,8) by auto
  then show ?thesis
    using f div_eqI[of "doe - doe div 1460 + doe div 36524 - doe div 146096" 365
        "100 * c + 4 * q + k" "t - e"]
    by simp
qed


text \<open>Every day of a 400-year era splits into its century, four-year cycle, year and day.\<close>

lemma era_day_split:
  assumes "0 \<le> doe" "doe \<le> 146096"
  obtains c q k t :: int where
    "0 \<le> c" "c \<le> 3" "0 \<le> q" "q \<le> 24" "0 \<le> k" "k \<le> 3" "0 \<le> t" "t \<le> 365"
    "t = 365 \<Longrightarrow> k = 3 \<and> (q < 24 \<or> c = 3)"
    "doe = 36524 * c + 1461 * q + 365 * k + t"
proof -
  define c where "c = min (doe div 36524) 3"
  define r1 where "r1 = doe - 36524 * c"
  define q where "q = min (r1 div 1461) 24"
  define r2 where "r2 = r1 - 1461 * q"
  define k where "k = min (r2 div 365) 3"
  define t where "t = r2 - 365 * k"
  have c: "0 \<le> c" "c \<le> 3" using assms by (simp_all add: c_def)
  have r1: "0 \<le> r1" "r1 \<le> 36524" "r1 = 36524 \<Longrightarrow> c = 3"
    using assms unfolding r1_def c_def by (auto simp: min_def) 
  have q: "0 \<le> q" "q \<le> 24" using r1 by (simp_all add: q_def)
  have r2: "0 \<le> r2" "r2 \<le> 1460" "r2 = 1460 \<Longrightarrow> q < 24 \<or> r1 = 36524"
    using r1 unfolding r2_def q_def by (auto simp: min_def)
  have k: "0 \<le> k" "k \<le> 3" using r2 by (simp_all add: k_def)
  have t: "0 \<le> t" "t \<le> 365" "t = 365 \<Longrightarrow> k = 3 \<and> r2 = 1460"
    using r2 unfolding t_def k_def by (auto simp: min_def)
  have "doe = 36524 * c + 1461 * q + 365 * k + t"
    by (simp add: t_def r2_def r1_def)
  moreover have "t = 365 \<Longrightarrow> k = 3 \<and> (q < 24 \<or> c = 3)"
    using t r2 r1 by blast
  ultimately show ?thesis using that c q k t by blast
qed


text \<open>The year of the era and the day of that year, for a day of the era.\<close>

lemma year_of_era:
  fixes doe :: int
  assumes "0 \<le> doe" "doe \<le> 146096"
  defines "yoe \<equiv> (doe - doe div 1460 + doe div 36524 - doe div 146096) div 365"
  shows "0 \<le> yoe \<and> yoe \<le> 399
       \<and> 0 \<le> doe - (365 * yoe + yoe div 4 - yoe div 100)
       \<and> doe - (365 * yoe + yoe div 4 - yoe div 100) \<le> 365"
proof -
  obtain c q k t :: int where
    b: "0 \<le> c" "c \<le> 3" "0 \<le> q" "q \<le> 24" "0 \<le> k" "k \<le> 3" "0 \<le> t" "t \<le> 365"
    and top: "t = 365 \<Longrightarrow> k = 3 \<and> (q < 24 \<or> c = 3)"
    and doe: "doe = 36524 * c + 1461 * q + 365 * k + t"
    using era_day_split[OF assms(1,2)] by metis
  have y: "yoe = 100 * c + 4 * q + k"
    unfolding yoe_def using yoe_core[OF b top doe] by simp
  have y4: "yoe div 4 = 25 * c + q"
    using div_eqI[of yoe 4 "25 * c + q" k] y b by simp
  have y100: "yoe div 100 = c"
    using div_eqI[of yoe 100 c "4 * q + k"] y b by simp
  have "doe - (365 * yoe + yoe div 4 - yoe div 100) = t"
    unfolding y4 y100 using y doe by simp
  then show ?thesis using y b by simp
qed

lemma minus_div_mono:
  fixes a b :: int
  assumes "a \<le> b"
  shows "a - a div 1460 \<le> b - b div 1460"
proof (cases "a div 1460 = b div 1460")
  case True
  then show ?thesis using assms by simp
next
  case False
  have "a div 1460 \<le> b div 1460" using assms by (simp add: zdiv_mono1)
  then have lt: "a div 1460 + 1 \<le> b div 1460" using False by simp
  have a: "a = 1460 * (a div 1460) + a mod 1460" by simp
  have b: "b = 1460 * (b div 1460) + b mod 1460" by simp
  have ra: "a mod 1460 \<le> 1459" using pos_mod_bound[of 1460 a] by simp
  have rb: "0 \<le> b mod 1460" by simp
  show ?thesis using lt a b ra rb by linarith
qed

lemma century_div_mono:
  fixes a b :: int
  assumes "0 \<le> a" "a \<le> b" "b \<le> 146096"
  shows "a div 36524 - a div 146096 \<le> b div 36524 - b div 146096"
proof (cases "b = 146096")
  case True
  show ?thesis
  proof (cases "a = 146096")
    case True
    then show ?thesis using \<open>b = 146096\<close> by simp
  next
    case False
    then have "a \<le> 146095" using assms True by simp
    then have "a div 36524 \<le> 146095 div 36524" by (rule zdiv_mono1) simp
    moreover have "a div 146096 = 0" using assms False True by (simp add: div_pos_pos_trivial)
    ultimately show ?thesis using True by simp
  qed
next
  case False
  then have "a div 146096 = 0" "b div 146096 = 0"
    using assms by (simp_all add: div_pos_pos_trivial)
  moreover have "a div 36524 \<le> b div 36524" using assms by (simp add: zdiv_mono1)
  ultimately show ?thesis by simp
qed

lemma year_of_era_mono:
  fixes a b :: int
  assumes "0 \<le> a" "a \<le> b" "b \<le> 146096"
  shows "(a - a div 1460 + a div 36524 - a div 146096) div 365
       \<le> (b - b div 1460 + b div 36524 - b div 146096) div 365"
proof -
  have "a - a div 1460 + a div 36524 - a div 146096 \<le> b - b div 1460 + b div 36524 - b div 146096"
    using minus_div_mono[OF assms(2)] century_div_mono[OF assms] by linarith
  then show ?thesis by (rule zdiv_mono1) simp
qed

text \<open>The month counted from March and the day of the month, for a day of the year.\<close>

lemma month_of_year:
  fixes doy :: int
  assumes "0 \<le> doy" "doy \<le> 365"
  defines "mp \<equiv> (5 * doy + 2) div 153"
  shows "0 \<le> mp \<and> mp \<le> 11
       \<and> 1 \<le> doy - (153 * mp + 2) div 5 + 1 \<and> doy - (153 * mp + 2) div 5 + 1 \<le> 31"
  using assms(1,2) unfolding mp_def by auto

lemma month_of_year_mono:
  fixes a b :: int
  assumes "a \<le> b"
  shows "(5 * a + 2) div 153 \<le> (5 * b + 2) div 153"
  using assms by (intro zdiv_mono1) simp_all

lemma dayOfEra_range: "0 \<le> dayOfEra z \<and> dayOfEra z \<le> 146096"
proof -
  have "dayOfEra z = (z + 719468) mod 146097"
    unfolding dayOfEra_def eraOf_def by (simp add: minus_div_mult_eq_mod)
  then show ?thesis using pos_mod_bound[of 146097 "z + 719468"] by simp
qed

lemma civil_from_days_parts:
  "civil_from_days z =
     (if (if monthFromMarch (dayOfYear (dayOfEra z)) < 10
          then monthFromMarch (dayOfYear (dayOfEra z)) + 3
          else monthFromMarch (dayOfYear (dayOfEra z)) - 9) \<le> 2
      then yearOfEra (dayOfEra z) + eraOf z * 400 + 1
      else yearOfEra (dayOfEra z) + eraOf z * 400,
      if monthFromMarch (dayOfYear (dayOfEra z)) < 10
      then monthFromMarch (dayOfYear (dayOfEra z)) + 3
      else monthFromMarch (dayOfYear (dayOfEra z)) - 9,
      dayOfMonth (dayOfYear (dayOfEra z)))"
  unfolding civil_from_days_def Let_def eraOf_def dayOfEra_def yearOfEra_def dayOfYear_def
    monthFromMarch_def dayOfMonth_def
  by (rule refl)

lemma parts_range:
  "0 \<le> yearOfEra (dayOfEra z) \<and> yearOfEra (dayOfEra z) \<le> 399
   \<and> 0 \<le> dayOfYear (dayOfEra z) \<and> dayOfYear (dayOfEra z) \<le> 365
   \<and> 0 \<le> monthFromMarch (dayOfYear (dayOfEra z)) \<and> monthFromMarch (dayOfYear (dayOfEra z)) \<le> 11
   \<and> 1 \<le> dayOfMonth (dayOfYear (dayOfEra z)) \<and> dayOfMonth (dayOfYear (dayOfEra z)) \<le> 31"
proof -
  have r: "0 \<le> dayOfEra z" "dayOfEra z \<le> 146096" using dayOfEra_range[of z] by simp_all
  have y: "0 \<le> yearOfEra (dayOfEra z) \<and> yearOfEra (dayOfEra z) \<le> 399
       \<and> 0 \<le> dayOfYear (dayOfEra z) \<and> dayOfYear (dayOfEra z) \<le> 365"
    using year_of_era[OF r] by (simp add: yearOfEra_def dayOfYear_def)
  then have d: "0 \<le> dayOfYear (dayOfEra z)" "dayOfYear (dayOfEra z) \<le> 365" by simp_all
  show ?thesis
    using y month_of_year[OF d] by (simp add: monthFromMarch_def dayOfMonth_def)
qed

lemma civil_month_index:
  assumes "civil_from_days z = (y, m, d)"
  shows "12 * y + m = monthIndex z + 3 \<and> 1 \<le> m \<and> m \<le> 12 \<and> 1 \<le> d \<and> d \<le> 31
       \<and> d = dayOfMonth (dayOfYear (dayOfEra z))"
  using assms parts_range[of z]
  by (auto simp: civil_from_days_parts monthIndex_def split: if_splits)

lemma era_parts_mono:
  assumes "a < b"
  shows "eraOf a < eraOf b \<or> (eraOf a = eraOf b \<and> dayOfEra a < dayOfEra b)"
proof -
  have "eraOf a \<le> eraOf b" unfolding eraOf_def using assms by (intro zdiv_mono1) simp_all
  then show ?thesis using assms by (auto simp: dayOfEra_def)
qed

lemma month_index_less:
  fixes x y p r :: int
  assumes "x < y" "p \<le> 11" "0 \<le> r"
  shows "12 * x + p < 12 * y + r"
proof -
  have "x + 1 \<le> y" using assms(1) by simp
  then have "12 * x + 12 \<le> 12 * y" by simp
  then show ?thesis using assms(2,3) by linarith
qed

lemma day_steps_mono:
  assumes "a < b"
  shows "monthIndex a < monthIndex b
       \<or> (monthIndex a = monthIndex b
          \<and> dayOfMonth (dayOfYear (dayOfEra a)) < dayOfMonth (dayOfYear (dayOfEra b)))"
proof -
  define Ya where "Ya = yearOfEra (dayOfEra a)"
  define Yb where "Yb = yearOfEra (dayOfEra b)"
  define Ma where "Ma = monthFromMarch (dayOfYear (dayOfEra a))"
  define Mb where "Mb = monthFromMarch (dayOfYear (dayOfEra b))"
  have ra: "0 \<le> Ya" "Ya \<le> 399" "0 \<le> Ma" "Ma \<le> 11"
    using parts_range[of a] by (simp_all add: Ya_def Ma_def)
  have rb: "0 \<le> Yb" "Yb \<le> 399" "0 \<le> Mb" "Mb \<le> 11"
    using parts_range[of b] by (simp_all add: Yb_def Mb_def)
  have ia: "monthIndex a = 12 * (Ya + 400 * eraOf a) + Ma"
    by (simp only: monthIndex_def Ya_def Ma_def)
  have ib: "monthIndex b = 12 * (Yb + 400 * eraOf b) + Mb"
    by (simp only: monthIndex_def Yb_def Mb_def)
  consider (era) "eraOf a < eraOf b"
    | (day) "eraOf a = eraOf b" "dayOfEra a < dayOfEra b"
    using era_parts_mono[OF assms] by blast
  then show ?thesis
  proof cases
    case era
    then have "eraOf a + 1 \<le> eraOf b" by simp
    then have "Ya + 400 * eraOf a < Yb + 400 * eraOf b"
      using ra(2) rb(1) by linarith
    then have "12 * (Ya + 400 * eraOf a) + Ma < 12 * (Yb + 400 * eraOf b) + Mb"
      using ra(4) rb(3) by (rule month_index_less)
    then show ?thesis unfolding ia ib by (rule disjI1)
  next
    case day
    have ya: "Ya \<le> Yb"
      unfolding Ya_def Yb_def yearOfEra_def
      using day(2) dayOfEra_range[of a] dayOfEra_range[of b]
      by (intro year_of_era_mono) simp_all
    show ?thesis
    proof (cases "Ya = Yb")
      case False
      then have "Ya + 400 * eraOf a < Yb + 400 * eraOf b"
        using ya day(1) by simp
      then have "12 * (Ya + 400 * eraOf a) + Ma < 12 * (Yb + 400 * eraOf b) + Mb"
        using ra(4) rb(3) by (rule month_index_less)
      then show ?thesis unfolding ia ib by (rule disjI1)
    next
      case True
      have "dayOfYear (dayOfEra a) = dayOfEra a - (365 * Ya + Ya div 4 - Ya div 100)"
        by (simp only: dayOfYear_def Ya_def)
      moreover have "dayOfYear (dayOfEra b) = dayOfEra b - (365 * Ya + Ya div 4 - Ya div 100)"
        by (simp only: dayOfYear_def Yb_def True)
      ultimately have doy: "dayOfYear (dayOfEra a) < dayOfYear (dayOfEra b)"
        using day(2) by linarith
      then have "dayOfYear (dayOfEra a) \<le> dayOfYear (dayOfEra b)" by simp
      then have mp: "Ma \<le> Mb"
        unfolding Ma_def Mb_def monthFromMarch_def by (rule month_of_year_mono)
      show ?thesis
      proof (cases "Ma = Mb")
        case False
        then have "Ma < Mb" using mp by simp
        then have "monthIndex a < monthIndex b"
          unfolding ia ib using True day(1) by simp
        then show ?thesis by (rule disjI1)
      next
        case same: True
        have e: "monthIndex a = monthIndex b"
          unfolding ia ib using True same day(1) by simp
        have "dayOfMonth (dayOfYear (dayOfEra a)) = dayOfYear (dayOfEra a) - (153 * Ma + 2) div 5 + 1"
          by (simp only: dayOfMonth_def Ma_def)
        moreover have "dayOfMonth (dayOfYear (dayOfEra b)) = dayOfYear (dayOfEra b) - (153 * Ma + 2) div 5 + 1"
          by (simp only: dayOfMonth_def Mb_def same)
        ultimately have "dayOfMonth (dayOfYear (dayOfEra a)) < dayOfMonth (dayOfYear (dayOfEra b))"
          using doy by linarith
        then show ?thesis using e by simp
      qed
    qed
  qed
qed

lemma civil_from_days_mono:
  assumes "a < b"
  shows "lexDate (civil_from_days a) (civil_from_days b)"
proof -
  obtain y1 m1 d1 where ca: "civil_from_days a = (y1, m1, d1)" by (cases "civil_from_days a") auto
  obtain y2 m2 d2 where cb: "civil_from_days b = (y2, m2, d2)" by (cases "civil_from_days b") auto
  have ia: "12 * y1 + m1 = monthIndex a + 3" "1 \<le> m1" "m1 \<le> 12"
    "d1 = dayOfMonth (dayOfYear (dayOfEra a))"
    using civil_month_index[OF ca] by simp_all
  have ib: "12 * y2 + m2 = monthIndex b + 3" "1 \<le> m2" "m2 \<le> 12"
    "d2 = dayOfMonth (dayOfYear (dayOfEra b))"
    using civil_month_index[OF cb] by simp_all
  from day_steps_mono[OF assms] show ?thesis
  proof
    assume "monthIndex a < monthIndex b"
    then have "12 * y1 + m1 < 12 * y2 + m2" using ia ib by linarith
    then have "y1 < y2 \<or> (y1 = y2 \<and> m1 < m2)" using ia ib by (cases "y1 < y2") auto
    then show ?thesis by (auto simp: lexDate_def ca cb)
  next
    assume h: "monthIndex a = monthIndex b
       \<and> dayOfMonth (dayOfYear (dayOfEra a)) < dayOfMonth (dayOfYear (dayOfEra b))"
    then have "12 * y1 + m1 = 12 * y2 + m2" using ia ib by linarith
    then have eq: "12 * y1 + m1 = 12 * y2 + m2" .
    have "y1 = y2" using eq ia ib by linarith
    moreover have "m1 = m2" using eq \<open>y1 = y2\<close> by simp
    moreover have "d1 < d2" using h ia ib by simp
    ultimately show ?thesis by (simp add: lexDate_def ca cb)
  qed
qed

text \<open>Fixed-width decimal digits are ordered as the numbers they write.\<close>

lemma digitChar_code:
  assumes "0 \<le> a" "a \<le> 9"
  shows "(of_char (digitChar a) :: nat) = 48 + nat a"
proof -
  have "a = 0 \<or> a = 1 \<or> a = 2 \<or> a = 3 \<or> a = 4 \<or> a = 5 \<or> a = 6 \<or> a = 7 \<or> a = 8 \<or> a = 9"
    using assms by presburger
  then show ?thesis by (elim disjE) (simp_all add: digitChar_def)
qed

lemma digitChar_less:
  assumes "0 \<le> a" "a \<le> 9" "0 \<le> b" "b \<le> 9"
  shows "digitChar a < digitChar b \<longleftrightarrow> a < b"
  using assms by (auto simp: less_char_def digitChar_code)

lemma digitChar_eq:
  assumes "0 \<le> a" "a \<le> 9" "0 \<le> b" "b \<le> 9"
  shows "digitChar a = digitChar b \<longleftrightarrow> a = b"
proof
  assume "digitChar a = digitChar b"
  then have "(of_char (digitChar a) :: nat) = of_char (digitChar b)" by simp
  then show "a = b" using assms by (simp add: digitChar_code)
qed simp

lemma append_less_same_length:
  fixes xs ys :: "'a::linorder list"
  assumes "length xs = length ys"
  shows "xs @ us < ys @ vs \<longleftrightarrow> xs < ys \<or> (xs = ys \<and> us < vs)"
  using assms by (induction xs ys rule: list_induct2) auto

lemma length_padded: "length (padded k n) = k"
  by (induction k arbitrary: n) simp_all

lemma padded_order:
  assumes "0 \<le> a" "a < 10 ^ k" "0 \<le> b" "b < 10 ^ k"
  shows "(padded k a < padded k b \<longleftrightarrow> a < b) \<and> (padded k a = padded k b \<longleftrightarrow> a = b)"
  using assms
proof (induction k arbitrary: a b)
  case 0
  then show ?case by simp
next
  case (Suc k)
  have qa: "0 \<le> a div 10" "a div 10 < 10 ^ k" using Suc.prems by (simp_all add: div_less_iff_less_mult pos_imp_zdiv_nonneg_iff)
  have qb: "0 \<le> b div 10" "b div 10 < 10 ^ k" using Suc.prems by (simp_all add: div_less_iff_less_mult pos_imp_zdiv_nonneg_iff)
  have ra: "0 \<le> a mod 10" "a mod 10 \<le> 9" using pos_mod_bound[of 10 a] by simp_all
  have rb: "0 \<le> b mod 10" "b mod 10 \<le> 9" using pos_mod_bound[of 10 b] by simp_all
  note ih = Suc.IH[OF qa qb]
  have a: "a = 10 * (a div 10) + a mod 10" by simp
  have b: "b = 10 * (b div 10) + b mod 10" by simp
  have lt: "a < b \<longleftrightarrow> a div 10 < b div 10 \<or> (a div 10 = b div 10 \<and> a mod 10 < b mod 10)"
  proof (cases "a div 10 = b div 10")
    case True
    then show ?thesis using a b by presburger
  next
    case False
    show ?thesis
    proof (cases "a div 10 < b div 10")
      case True
      then have "a div 10 + 1 \<le> b div 10" by simp
      then have "a < b" using a b ra rb by linarith
      then show ?thesis using True by simp
    next
      case nlt: False
      then have "b div 10 + 1 \<le> a div 10" using False by simp
      then have "b < a" using a b ra rb by linarith
      then show ?thesis using nlt False by simp
    qed
  qed
  have eq: "a = b \<longleftrightarrow> a div 10 = b div 10 \<and> a mod 10 = b mod 10"
    using a b by metis
  show ?case
    using ih lt eq digitChar_less[OF ra rb] digitChar_eq[OF ra rb]
    by (simp add: append_less_same_length length_padded)
qed

lemma isoYear_length: "0 \<le> y \<Longrightarrow> y \<le> 9999 \<Longrightarrow> isoYear y = padded 4 y"
  by (simp add: isoYear_def)

lemma day_of_midnight: "z * msPerDay div msPerDay = z"
  by (simp add: msPerDay_def)

lemma take_whole_prefix: "length xs = n \<Longrightarrow> take n (xs @ ys) = xs"
  by simp

lemma dayText_parts:
  assumes "civil_from_days z = (y, m, d)" "0 \<le> y" "y \<le> 9999"
  shows "dayText z = padded 4 y @ ''-'' @ padded 2 m @ ''-'' @ padded 2 d"
proof -
  have "isoString (z * msPerDay) =
          (padded 4 y @ ''-'' @ padded 2 m @ ''-'' @ padded 2 d)
          @ (''T'' @ padded 2 ((z * msPerDay mod msPerDay) div 3600000) @ '':''
             @ padded 2 ((z * msPerDay mod msPerDay) div 60000 mod 60) @ '':''
             @ padded 2 ((z * msPerDay mod msPerDay) div 1000 mod 60) @ ''.''
             @ padded 3 ((z * msPerDay mod msPerDay) mod 1000) @ ''Z'')"
    unfolding isoString_def day_of_midnight assms(1) Let_def
    by (simp add: isoYear_length[OF assms(2,3)] del: padded.simps)
  moreover have "length (padded 4 y @ ''-'' @ padded 2 m @ ''-'' @ padded 2 d) = 10"
    by (simp add: length_padded del: padded.simps)
  ultimately show ?thesis unfolding dayText_def by (simp only: take_whole_prefix)
qed

lemma dayText_less:
  assumes a: "civil_from_days a = (y1, m1, d1)" "0 \<le> y1" "y1 \<le> 9999"
    and b: "civil_from_days b = (y2, m2, d2)" "0 \<le> y2" "y2 \<le> 9999"
  shows "(dayText a < dayText b \<longleftrightarrow> lexDate (y1, m1, d1) (y2, m2, d2))
       \<and> (dayText a = dayText b \<longleftrightarrow> (y1, m1, d1) = (y2, m2, d2))"
proof -
  have ra: "1 \<le> m1" "m1 \<le> 12" "1 \<le> d1" "d1 \<le> 31" using civil_month_index[OF a(1)] by simp_all
  have rb: "1 \<le> m2" "m2 \<le> 12" "1 \<le> d2" "d2 \<le> 31" using civil_month_index[OF b(1)] by simp_all
  have Y: "(padded 4 y1 < padded 4 y2 \<longleftrightarrow> y1 < y2) \<and> (padded 4 y1 = padded 4 y2 \<longleftrightarrow> y1 = y2)"
    using padded_order[of y1 4 y2] a b by simp
  have M: "(padded 2 m1 < padded 2 m2 \<longleftrightarrow> m1 < m2) \<and> (padded 2 m1 = padded 2 m2 \<longleftrightarrow> m1 = m2)"
    using padded_order[of m1 2 m2] ra rb by simp
  have D: "(padded 2 d1 < padded 2 d2 \<longleftrightarrow> d1 < d2) \<and> (padded 2 d1 = padded 2 d2 \<longleftrightarrow> d1 = d2)"
    using padded_order[of d1 2 d2] ra rb by simp
  have tail: "padded 2 m1 @ ''-'' @ padded 2 d1 < padded 2 m2 @ ''-'' @ padded 2 d2
        \<longleftrightarrow> m1 < m2 \<or> (m1 = m2 \<and> d1 < d2)"
    using M D by (simp add: append_less_same_length length_padded del: padded.simps)
  have less: "dayText a < dayText b \<longleftrightarrow> lexDate (y1, m1, d1) (y2, m2, d2)"
    unfolding dayText_parts[OF a] dayText_parts[OF b] lexDate_def
    using Y tail by (simp add: append_less_same_length length_padded del: padded.simps)
  have eq: "dayText a = dayText b \<longleftrightarrow> (y1, m1, d1) = (y2, m2, d2)"
    unfolding dayText_parts[OF a] dayText_parts[OF b]
    using Y M D by (simp add: length_padded del: padded.simps)
  show ?thesis using less eq by simp
qed

lemma first_day: "civil_from_days (- 719528) = (0, 1, 1)"
  by code_simp

lemma last_day: "civil_from_days 2932896 = (9999, 12, 31)"
  by code_simp

lemma year_in_range:
  assumes "- 719528 \<le> z" "z \<le> 2932896"
  shows "0 \<le> fst (civil_from_days z) \<and> fst (civil_from_days z) \<le> 9999"
proof -
  have lo: "0 \<le> fst (civil_from_days z)"
  proof (cases "z = - 719528")
    case True
    then show ?thesis by (simp add: first_day)
  next
    case False
    then have "- 719528 < z" using assms by simp
    from civil_from_days_mono[OF this] show ?thesis
      by (auto simp: lexDate_def first_day)
  qed
  have hi: "fst (civil_from_days z) \<le> 9999"
  proof (cases "z = 2932896")
    case True
    then show ?thesis by (simp add: last_day)
  next
    case False
    then have "z < 2932896" using assms by simp
    from civil_from_days_mono[OF this] show ?thesis
      by (auto simp: lexDate_def last_day)
  qed
  show ?thesis using lo hi by simp
qed

lemma dayText_strict_mono:
  assumes "inYears a" "inYears b" "a < b"
  shows "dayText a < dayText b"
proof -
  obtain y1 m1 d1 where ca: "civil_from_days a = (y1, m1, d1)" by (cases "civil_from_days a") auto
  obtain y2 m2 d2 where cb: "civil_from_days b = (y2, m2, d2)" by (cases "civil_from_days b") auto
  have ya: "0 \<le> y1" "y1 \<le> 9999" using year_in_range[of a] assms(1) ca by (simp_all add: inYears_def)
  have yb: "0 \<le> y2" "y2 \<le> 9999" using year_in_range[of b] assms(2) cb by (simp_all add: inYears_def)
  from civil_from_days_mono[OF assms(3)] show ?thesis
    using dayText_less[OF ca ya cb yb] ca cb by simp
qed

lemma dayText_chronological:
  assumes "inYears a" "inYears b"
  shows "(dayText a < dayText b \<longleftrightarrow> a < b) \<and> (dayText a \<le> dayText b \<longleftrightarrow> a \<le> b)"
proof (cases a b rule: linorder_cases)
  case less
  then show ?thesis using dayText_strict_mono[OF assms less] by simp
next
  case equal
  then show ?thesis by simp
next
  case greater
  then show ?thesis using dayText_strict_mono[OF assms(2,1) greater] by (simp add: not_le not_less less_imp_le)
qed

text \<open>The first ten characters of an ISO date-time are the text of its day.\<close>

lemma isoDay_dayText: "isoDay (Some t) = Inr (dayText (t div msPerDay))"
proof -
  obtain y m d where c: "civil_from_days (t div msPerDay) = (y, m, d)"
    by (cases "civil_from_days (t div msPerDay)") auto
  have len: "10 \<le> length (isoYear y @ ''-'' @ padded 2 m @ ''-'' @ padded 2 d)"
    by (simp add: isoYear_def length_padded del: padded.simps)
  have cut: "take 10 (xs @ ys) = take 10 xs" if "10 \<le> length xs" for xs ys :: string
    using that by simp
  have "take 10 (isoString t) = take 10 (isoYear y @ ''-'' @ padded 2 m @ ''-'' @ padded 2 d)"
    unfolding isoString_def c Let_def using cut[OF len] by (simp del: padded.simps)
  moreover have "take 10 (isoString (t div msPerDay * msPerDay))
      = take 10 (isoYear y @ ''-'' @ padded 2 m @ ''-'' @ padded 2 d)"
    unfolding isoString_def day_of_midnight c Let_def using cut[OF len] by (simp del: padded.simps)
  ultimately show ?thesis by (simp add: isoDay_def toISOString_def dayText_def)
qed

text \<open>
  Serial numbers. For every whole serial other than 0 whose day lies in the years 0000 to 9999,
  the function gives the text of the day \<open>n - 1\<close> days after the epoch 1899-12-30, which is
  the day before the one \<open>n\<close> days after the epoch.
\<close>

lemma excelEpoch_days: "excelEpoch = - 25569 * msPerDay"
  by code_simp

lemma timeClip_int:
  assumes "\<bar>k\<bar> \<le> 8640000000000000"
  shows "timeClip (Fin (of_int k)) = Some k"
proof -
  have "\<bar>(of_int k :: rat)\<bar> \<le> 8640000000000000"
    using assms by (metis of_int_abs of_int_le_iff of_int_numeral)
  then show ?thesis by (simp add: timeClip_def)
qed

lemma serialDay_int:
  assumes "inYears (n - 25570)"
  shows "serialDay (Fin (of_int n)) = Inr (dayText (n - 25570))"
proof -
  have r: "- 719528 \<le> n - 25570" "n - 25570 \<le> 2932896" using assms by (simp_all add: inYears_def)
  have e: "jadd (Fin (of_int excelEpoch)) (jmul (jsub (Fin (of_int n)) (Fin 1)) (Fin 86400000))
        = Fin (of_int ((n - 25570) * msPerDay))"
    by (simp add: jsub_def excelEpoch_days msPerDay_def algebra_simps)
  have b: "\<bar>(n - 25570) * msPerDay\<bar> \<le> 8640000000000000"
    using r by (simp add: msPerDay_def abs_le_iff)
  have "serialDay (Fin (of_int n)) = isoDay (Some ((n - 25570) * msPerDay))"
    unfolding serialDay_def e by (simp only: timeClip_int[OF b])
  then show ?thesis by (simp only: isoDay_dayText day_of_midnight)
qed

lemma serial_is_one_day_early:
  assumes "n \<noteq> 0" "inYears (n - 25570)" "inYears (n - 25569)"
  shows "extractDateOnly eng (JNum (Fin (of_int n))) = Inr (dayText (n - 25570))"
    and "isoDay (Some (excelEpoch + n * msPerDay)) = Inr (dayText (n - 25569))"
    and "dayText (n - 25570) < dayText (n - 25569)"
proof -
  show "extractDateOnly eng (JNum (Fin (of_int n))) = Inr (dayText (n - 25570))"
    using assms(1) serialDay_int[OF assms(2)] by (simp add: extractDateOnly_def falsy_def)
  have "excelEpoch + n * msPerDay = (n - 25569) * msPerDay"
    by (simp add: excelEpoch_days algebra_simps)
  then show "isoDay (Some (excelEpoch + n * msPerDay)) = Inr (dayText (n - 25569))"
    by (simp add: isoDay_dayText day_of_midnight)
  show "dayText (n - 25570) < dayText (n - 25569)"
    using dayText_strict_mono[OF assms(2,3)] by simp
qed

section \<open>The date filter\<close>

text \<open>
  The comparison of the code is the lexicographic order of strings, characters ordered by
  their codes.
\<close>

lemma str_lt_iff_less: "str_lt a b \<longleftrightarrow> a < b"
  by (induction a b rule: str_lt.induct) (auto simp: less_char_def)

lemma inRange_iff:
  assumes "getp row ''DateOnly'' = JStr d"
  shows "inRange nStart nEnd row \<longleftrightarrow> nStart \<le> d \<and> d \<le> nEnd"
  using assms by (auto simp: inRange_def ge_str_def le_str_def str_lt_iff_less not_less)

text \<open>
  C7. The date filter is inclusive at both ends. For a row whose \<open>DateOnly\<close> is the string
  \<open>d\<close>: the row is in range exactly when \<open>nStart \<le> d \<le> nEnd\<close> in the lexicographic order; it
  is among the rows selected for a merchant exactly when it is a row of the dataset, in range
  and of that merchant; a row dated at either bound of a range that is not empty is in range;
  a row dated before the start or after the end is not. When the three strings are the texts
  of the days \<open>a\<close>, \<open>s\<close> and \<open>e\<close> of the years 0000 to 9999, the row is in range exactly when
  \<open>s \<le> a \<le> e\<close>: the day before the start and the day after the end are out.
\<close>

theorem date_filter_is_inclusive:
  assumes "getp row ''DateOnly'' = JStr d"
  shows "(inRange nStart nEnd row \<longleftrightarrow> nStart \<le> d \<and> d \<le> nEnd)
       \<and> (row \<in> set (selectRows nStart nEnd merchant data) \<longleftrightarrow>
            row \<in> set data \<and> nStart \<le> d \<and> d \<le> nEnd \<and> getp row ''Merchant Name'' = JStr merchant)
       \<and> (nStart \<le> nEnd \<and> (d = nStart \<or> d = nEnd) \<longrightarrow> inRange nStart nEnd row)
       \<and> (d < nStart \<or> nEnd < d \<longrightarrow> \<not> inRange nStart nEnd row)
       \<and> (inYears a \<and> inYears s \<and> inYears e
            \<and> d = dayText a \<and> nStart = dayText s \<and> nEnd = dayText e
          \<longrightarrow> (inRange nStart nEnd row \<longleftrightarrow> s \<le> a \<and> a \<le> e))"
proof -
  note lex = inRange_iff[OF assms, of nStart nEnd]
  have days: "inYears a \<and> inYears s \<and> inYears e
            \<and> d = dayText a \<and> nStart = dayText s \<and> nEnd = dayText e
          \<longrightarrow> (inRange nStart nEnd row \<longleftrightarrow> s \<le> a \<and> a \<le> e)"
    using lex dayText_chronological[of s a] dayText_chronological[of a e] by auto
  show ?thesis
    using lex days by (auto simp: selectRows_def rowMatches_def)
qed

theorem date_filter_is_inclusive_witness:
  "getp (acmeRows ! 0) ''DateOnly'' = JStr ''2024-01-01''
   \<and> inRange ''2024-01-01'' ''2024-01-02'' (acmeRows ! 0)
   \<and> acmeRows ! 0 \<in> set (selectRows ''2024-01-01'' ''2024-01-02'' ''Acme'' acmeRows)
   \<and> getp (acmeRows ! 1) ''DateOnly'' = JStr ''2024-01-02''
   \<and> inRange ''2024-01-01'' ''2024-01-02'' (acmeRows ! 1)
   \<and> getp eveRow ''DateOnly'' = JStr ''2023-12-31''
   \<and> \<not> inRange ''2024-01-01'' ''2024-01-02'' eveRow
   \<and> eveRow \<notin> set (selectRows ''2024-01-01'' ''2024-01-02'' ''Acme'' (eveRow # acmeRows))
   \<and> inYears 19722 \<and> inYears 19723 \<and> inYears 19724
   \<and> dayText 19722 = ''2023-12-31'' \<and> dayText 19723 = ''2024-01-01''
   \<and> dayText 19724 = ''2024-01-02''
   \<and> inRange (dayText 19723) (dayText 19724) (acmeRows ! 0)
   \<and> \<not> inRange (dayText 19723) (dayText 19724) eveRow
   \<and> \<not> inRange (dayText 19722) (dayText 19722) (acmeRows ! 0)"
proof -
  have d0: "getp (acmeRows ! 0) ''DateOnly'' = JStr ''2024-01-01''"
    by (simp add: acmeRows_def getp_def)
  have d1: "getp (acmeRows ! 1) ''DateOnly'' = JStr ''2024-01-02''"
    by (simp add: acmeRows_def getp_def)
  have d2: "getp eveRow ''DateOnly'' = JStr ''2023-12-31''"
    by (simp add: eveRow_def getp_def)
  have m0: "getp (acmeRows ! 0) ''Merchant Name'' = JStr ''Acme''" "acmeRows ! 0 \<in> set acmeRows"
    by (simp_all add: acmeRows_def getp_def)
  have yrs: "inYears 19722" "inYears 19723" "inYears 19724"
    by (simp_all add: inYears_def)
  have texts: "dayText 19722 = ''2023-12-31''" "dayText 19723 = ''2024-01-01''"
    "dayText 19724 = ''2024-01-02''"
    by code_simp+
  have lexical:
    "inRange ''2024-01-01'' ''2024-01-02'' (acmeRows ! 0)
     \<and> acmeRows ! 0 \<in> set (selectRows ''2024-01-01'' ''2024-01-02'' ''Acme'' acmeRows)
     \<and> inRange ''2024-01-01'' ''2024-01-02'' (acmeRows ! 1)
     \<and> \<not> inRange ''2024-01-01'' ''2024-01-02'' eveRow
     \<and> eveRow \<notin> set (selectRows ''2024-01-01'' ''2024-01-02'' ''Acme'' (eveRow # acmeRows))"
    using m0
      date_filter_is_inclusive[OF d0, of "''2024-01-01''" "''2024-01-02''" "''Acme''" acmeRows]
      date_filter_is_inclusive[OF d1, of "''2024-01-01''" "''2024-01-02''" "''Acme''" acmeRows]
      date_filter_is_inclusive[OF d2, of "''2024-01-01''" "''2024-01-02''" "''Acme''" "eveRow # acmeRows"]
    by simp
  have in0: "inRange (dayText 19723) (dayText 19724) (acmeRows ! 0)"
    using yrs texts
      date_filter_is_inclusive[OF d0, of "dayText 19723" "dayText 19724" "''Acme''" acmeRows
        19723 19723 19724]
    by simp
  have out_before: "\<not> inRange (dayText 19723) (dayText 19724) eveRow"
    using yrs texts
      date_filter_is_inclusive[OF d2, of "dayText 19723" "dayText 19724" "''Acme''" acmeRows
        19722 19723 19724]
    by simp
  have out_after: "\<not> inRange (dayText 19722) (dayText 19722) (acmeRows ! 0)"
    using yrs texts
      date_filter_is_inclusive[OF d0, of "dayText 19722" "dayText 19722" "''Acme''" acmeRows
        19723 19722 19722]
    by simp
  show ?thesis
    using d0 d1 d2 yrs texts lexical in0 out_before out_after by simp
qed

section \<open>Amounts and totals\<close>

lemma rowStep_pair:
  "rowStep eng merchant percent (t, fd) r =
     (\<lparr>totalW = jadd (totalW t) (withdrawalOf r),
       totalF = jadd (totalF t) (feeOf r),
       totalP = jadd (totalP t) (percentAmountOf percent r)\<rparr>,
      fd @ [detailRow eng merchant percent r])"
  by (simp add: rowStep_def)

lemma foldl_rowStep:
  "foldl (rowStep eng merchant percent) (t, fd) rows =
     (\<lparr>totalW = foldl jadd (totalW t) (map withdrawalOf rows),
       totalF = foldl jadd (totalF t) (map feeOf rows),
       totalP = foldl jadd (totalP t) (map (percentAmountOf percent) rows)\<rparr>,
      fd @ map (detailRow eng merchant percent) rows)"
proof (induction rows arbitrary: t fd)
  case Nil
  show ?case by simp
next
  case (Cons r rows)
  show ?case by (simp add: rowStep_pair Cons.IH)
qed

lemma rows_of_merchant:
  "foldl (rowStep eng merchant percent) (zeroTotals, fd) rows =
     (merchantTotals percent rows, fd @ map (detailRow eng merchant percent) rows)"
  by (simp add: foldl_rowStep merchantTotals_def sumOf_def zeroTotals_def)


lemma totalW_foldl_addTotals:
  "totalW (foldl addTotals g ts) = foldl jadd (totalW g) (map totalW ts)"
  by (induction ts arbitrary: g) (simp_all add: addTotals_def)

lemma totalF_foldl_addTotals:
  "totalF (foldl addTotals g ts) = foldl jadd (totalF g) (map totalF ts)"
  by (induction ts arbitrary: g) (simp_all add: addTotals_def)

lemma totalP_foldl_addTotals:
  "totalP (foldl addTotals g ts) = foldl jadd (totalP g) (map totalP ts)"
  by (induction ts arbitrary: g) (simp_all add: addTotals_def)

lemma foldl_addTotals_zero: "foldl addTotals zeroTotals ts = grandTotals ts"
  by (simp add: totals.equality totalW_foldl_addTotals totalF_foldl_addTotals
      totalP_foldl_addTotals grandTotals_def sumOf_def zeroTotals_def)

lemma merchantStep_skip:
  "\<not> included data nStart nEnd percents m \<Longrightarrow>
   merchantStep eng data nStart nEnd percents st m = st"
  by (auto simp: merchantStep_def included_def percentOf_def Let_def)

lemma merchantStep_take:
  "included data nStart nEnd percents m \<Longrightarrow>
   merchantStep eng data nStart nEnd percents st m =
     \<lparr>filteredData = filteredData st @ blockOf eng data nStart nEnd percents m,
      summaryData = summaryData st
        @ [summaryRow eng m (percentOf percents m) (totalsFor data nStart nEnd percents m)],
      grand = addTotals (grand st) (totalsFor data nStart nEnd percents m)\<rparr>"
  by (simp add: merchantStep_def included_def percentOf_def Let_def rows_of_merchant blockOf_def
      totalsFor_def)

lemma foldl_merchantStep:
  "foldl (merchantStep eng data nStart nEnd percents) st ms =
     \<lparr>filteredData = filteredData st
        @ concat (map (blockOf eng data nStart nEnd percents)
                    (filter (included data nStart nEnd percents) ms)),
      summaryData = summaryData st
        @ map (\<lambda>m. summaryRow eng m (percentOf percents m) (totalsFor data nStart nEnd percents m))
            (filter (included data nStart nEnd percents) ms),
      grand = foldl addTotals (grand st)
                (map (totalsFor data nStart nEnd percents)
                   (filter (included data nStart nEnd percents) ms))\<rparr>"
proof (induction ms arbitrary: st)
  case Nil
  show ?case by simp
next
  case (Cons m ms)
  show ?case
  proof (cases "included data nStart nEnd percents m")
    case True
    then show ?thesis by (simp add: merchantStep_take Cons.IH)
  next
    case False
    then show ?thesis by (simp add: merchantStep_skip Cons.IH)
  qed
qed














text \<open>
  The detail sheet of the written report has the same grand totals in its last row, after the
  rows of each included merchant.
\<close>

lemma api_generate_detail_sheet:
  assumes "gen_reply (api_generate eng w st qtype body) = Generated summary url"
  shows "\<exists>data nStart nEnd name.
           st (panelOf qtype) = Some data
         \<and> isoDay (newDate eng (startDate body)) = Inr nStart
         \<and> isoDay (newDate eng (endDate body)) = Inr nEnd
         \<and> (let percents = entriesOf (merchantPercents body);
                 inc = filter (included data nStart nEnd percents) (map fst percents);
                 ts = map (totalsFor data nStart nEnd percents) inc
             in gen_written (api_generate eng w st qtype body) =
                  [\<lparr>wb_filename = name,
                    wb_sheets =
                      [(''Detailed Data'',
                        concat (map (blockOf eng data nStart nEnd percents) inc)
                        @ [grandDetailRow eng (grandTotals ts)]),
                       (''Summary'', summary)]\<rparr>])"
  using assms
  by (auto simp: api_generate_def Let_def failed_def foldl_merchantStep genInit_def
      foldl_addTotals_zero split: option.splits if_splits sum.splits)

end
